theory Spec2Isabelle
  imports Main "HOL-Library.Sublist" "HOL-Library.AList"
begin

section \<open>Strings as the utilities see them\<close>

text \<open>
  A JavaScript string is a sequence of code units; it is modelled as a \<^typ>\<open>string\<close>, one
  \<^typ>\<open>char\<close> per code unit, which covers the code units 0 to 255. The character classes
  below are those of the regular expressions in \<^verbatim>\<open>utils.ts\<close> (no \<^verbatim>\<open>u\<close> flag):
  \<^verbatim>\<open>\w\<close> is \<^verbatim>\<open>[A-Za-z0-9_]\<close>, \<^verbatim>\<open>\d\<close> is \<^verbatim>\<open>[0-9]\<close>, and \<^verbatim>\<open>\s\<close> is, in this range,
  TAB, LF, VT, FF, CR, SPACE and NBSP.
\<close>

definition code :: "char \<Rightarrow> nat" where
  "code c = of_char c"

definition isDigit :: "char \<Rightarrow> bool" where
  "isDigit c \<longleftrightarrow> 48 \<le> code c \<and> code c \<le> 57"

definition isUpper :: "char \<Rightarrow> bool" where
  "isUpper c \<longleftrightarrow> 65 \<le> code c \<and> code c \<le> 90"

definition isLower :: "char \<Rightarrow> bool" where
  "isLower c \<longleftrightarrow> 97 \<le> code c \<and> code c \<le> 122"

definition isAlpha :: "char \<Rightarrow> bool" where
  "isAlpha c \<longleftrightarrow> isUpper c \<or> isLower c"

definition isAlnum :: "char \<Rightarrow> bool" where
  "isAlnum c \<longleftrightarrow> isAlpha c \<or> isDigit c"

definition isWordChar :: "char \<Rightarrow> bool" where
  "isWordChar c \<longleftrightarrow> isAlnum c \<or> c = CHR ''_''"

definition isSpace :: "char \<Rightarrow> bool" where
  "isSpace c \<longleftrightarrow> (9 \<le> code c \<and> code c \<le> 13) \<or> code c = 32 \<or> code c = 160"

text \<open>
  \<^verbatim>\<open>toLowerCase\<close> on one code unit: the ASCII capitals and the Latin-1 capitals
  (U+00C0 to U+00DE without the multiplication sign U+00D7) move up by 32.
\<close>

definition lowerChar :: "char \<Rightarrow> char" where
  "lowerChar c =
     (if isUpper c \<or> (192 \<le> code c \<and> code c \<le> 222 \<and> code c \<noteq> 215)
      then char_of (code c + 32) else c)"

text \<open>
  \<^verbatim>\<open>toUpperCase\<close> on one code unit, for the ASCII range. The only caller, \<^verbatim>\<open>toCamelCase\<close>,
  applies it to the first character of a word that consists of \<^verbatim>\<open>\w\<close> characters.
\<close>

definition upperChar :: "char \<Rightarrow> char" where
  "upperChar c = (if isLower c then char_of (code c - 32) else c)"

definition toLowerCase :: "string \<Rightarrow> string" where
  "toLowerCase s = map lowerChar s"

definition toUpperCase :: "string \<Rightarrow> string" where
  "toUpperCase s = map upperChar s"

text \<open>\<^verbatim>\<open>s.trim()\<close>: white space is removed at both ends.\<close>

definition trim :: "string \<Rightarrow> string" where
  "trim s = rev (dropWhile isSpace (rev (dropWhile isSpace s)))"

text \<open>\<^verbatim>\<open>s.split(d)\<close> for a one-character separator; the empty string gives one empty piece.\<close>

fun split :: "char \<Rightarrow> string \<Rightarrow> string list" where
  "split d [] = [[]]"
| "split d (c # cs) =
     (if c = d then [] # split d cs
      else (case split d cs of [] \<Rightarrow> [[c]] | w # ws \<Rightarrow> (c # w) # ws))"

text \<open>\<^verbatim>\<open>s.replace(/\s+/g, ' ')\<close>: every maximal run of white space becomes one space.\<close>

function collapseSpaces :: "string \<Rightarrow> string" where
  "collapseSpaces [] = []"
| "collapseSpaces (c # cs) =
     (if isSpace c then CHR '' '' # collapseSpaces (dropWhile isSpace cs)
      else c # collapseSpaces cs)"
  by pat_completeness auto
termination
  by (relation "measure length") (auto simp: less_Suc_eq_le length_dropWhile_le)

text \<open>\<^verbatim>\<open>s.includes(p)\<close> and \<^verbatim>\<open>s.startsWith(p)\<close>.\<close>

fun startsWith :: "string \<Rightarrow> string \<Rightarrow> bool" where
  "startsWith s [] = True"
| "startsWith [] (p # ps) = False"
| "startsWith (c # cs) (p # ps) = (c = p \<and> startsWith cs ps)"

fun includesStr :: "string \<Rightarrow> string \<Rightarrow> bool" where
  "includesStr [] p = (p = [])"
| "includesStr (c # cs) p = (startsWith (c # cs) p \<or> includesStr cs p)"

text \<open>
  A number in a template literal: the decimal digits of a non-negative integer (an index
  or a counter).
\<close>

definition digitChar :: "nat \<Rightarrow> char" where
  "digitChar d = char_of (48 + d)"

function numberToString :: "nat \<Rightarrow> string" where
  "numberToString n =
     (if n < 10 then [digitChar n] else numberToString (n div 10) @ [digitChar (n mod 10)])"
  by pat_completeness auto
termination
  by (relation "measure id") auto

declare numberToString.simps [simp del]

text \<open>Distinct numbers have distinct digit strings; the loop of \<^verbatim>\<open>uniquifyPropertyNames\<close>
  terminates because of it.\<close>

lemma digitChar_inj: "a < 10 \<Longrightarrow> b < 10 \<Longrightarrow> digitChar a = digitChar b \<Longrightarrow> a = b"
  by (simp add: digitChar_def char_of_eq_iff take_bit_eq_mod)

lemma numberToString_nonempty: "numberToString n \<noteq> []"
  by (subst numberToString.simps) simp

lemma numberToString_nonempty': "[] \<noteq> numberToString n"
  using numberToString_nonempty [of n] by simp

lemma numberToString_inj: "numberToString m = numberToString n \<Longrightarrow> m = n"
proof (induction m arbitrary: n rule: numberToString.induct)
  case (1 m)
  show ?case
  proof (cases "m < 10")
    case small_m: True
    show ?thesis
    proof (cases "n < 10")
      case True
      with small_m "1.prems" show ?thesis
        by (simp add: numberToString.simps [of m] numberToString.simps [of n] digitChar_inj)
    next
      case False
      with small_m "1.prems" show ?thesis
        by (simp add: numberToString.simps [of m] numberToString.simps [of n]
            numberToString_nonempty numberToString_nonempty')
    qed
  next
    case big_m: False
    show ?thesis
    proof (cases "n < 10")
      case True
      with big_m "1.prems" show ?thesis
        by (simp add: numberToString.simps [of m] numberToString.simps [of n]
            numberToString_nonempty numberToString_nonempty')
    next
      case False
      with big_m "1.prems"
      have eq: "numberToString (m div 10) = numberToString (n div 10)"
        and last: "digitChar (m mod 10) = digitChar (n mod 10)"
        by (simp_all add: numberToString.simps [of m] numberToString.simps [of n])
      from "1.IH" [OF big_m eq] have "m div 10 = n div 10" .
      moreover from last have "m mod 10 = n mod 10"
        by (simp add: digitChar_inj)
      ultimately show ?thesis
        by (metis div_mult_mod_eq)
    qed
  qed
qed

section \<open>Identifier utilities (utils.ts)\<close>

text \<open>
  \<^verbatim>\<open>toCamelCase\<close>: the chain of \<^verbatim>\<open>replace\<close>, \<^verbatim>\<open>trim\<close>, \<^verbatim>\<open>split\<close>, \<^verbatim>\<open>map\<close>, \<^verbatim>\<open>join\<close> and three
  more \<^verbatim>\<open>replace\<close> calls, one definition per step, in the order of the source.
\<close>

definition punctuationToSpaces :: "string \<Rightarrow> string" where
  "punctuationToSpaces s = map (\<lambda>c. if isWordChar c \<or> isSpace c then c else CHR '' '') s"

definition camelWord :: "nat \<times> string \<Rightarrow> string" where
  "camelWord p =
     (case p of (index, word) \<Rightarrow>
        if index = 0 then toLowerCase word
        else toUpperCase (take 1 word) @ toLowerCase (drop 1 word))"

definition stripLeadingDigits :: "string \<Rightarrow> string" where
  "stripLeadingDigits s = dropWhile isDigit s"

definition stripBadStart :: "string \<Rightarrow> string" where
  "stripBadStart s =
     (case s of [] \<Rightarrow> []
      | c # cs \<Rightarrow> if isAlpha c \<or> c = CHR ''_'' \<or> c = CHR ''$'' then s else cs)"

definition orElse :: "string \<Rightarrow> string \<Rightarrow> string" where
  "orElse s d = (if s = [] then d else s)"

definition toCamelCase :: "string \<Rightarrow> string" where
  "toCamelCase input =
     (if input = [] then ''element''
      else orElse
        (stripBadStart (stripLeadingDigits (filter isWordChar (concat
           (map camelWord (enumerate 0
              (split CHR '' '' (trim (collapseSpaces (punctuationToSpaces input))))))))))
        ''element'')"

definition sanitizeKey :: "string \<Rightarrow> string" where
  "sanitizeKey input = toLowerCase (filter isAlnum input)"

text \<open>\<^verbatim>\<open>escapeString\<close>: every single quote gets a backslash in front.\<close>

definition escapeString :: "string \<Rightarrow> string" where
  "escapeString input = concat (map (\<lambda>c. if c = CHR 0x27 then [CHR 0x5C, CHR 0x27] else [c]) input)"

section \<open>Well-formed identifiers\<close>



section \<open>The element record (types.ts)\<close>

record ElementSelector =
  selector :: string
  key :: string

text \<open>
  \<^verbatim>\<open>AccessibleElement\<close>. The field \<^verbatim>\<open>selector\<close> is \<open>elSelector\<close>, \<^verbatim>\<open>id\<close> is \<open>elId\<close>,
  \<^verbatim>\<open>key\<close> is \<open>elKey\<close> and the two quoted fields are \<open>ariaLabel\<close> and \<open>ariaLabelledby\<close>;
  \<^verbatim>\<open>attributes\<close> is the snapshot object as an association list in insertion order.
\<close>

record AccessibleElement =
  name :: string
  type :: string
  elSelector :: ElementSelector
  tagName :: string
  textContent :: string
  elId :: string
  className :: string
  role :: string
  nameAttr :: string
  placeholder :: string
  ariaLabel :: string
  ariaLabelledby :: string
  attributes :: "(string \<times> string) list"
  propertyName :: string
  elKey :: string

section \<open>uniquifyPropertyNames (utils.ts)\<close>

text \<open>
  The \<^verbatim>\<open>while\<close> loop: \<open>usedNames\<close> is the \<^verbatim>\<open>Set\<close> (its members, in insertion order),
  \<open>base\<close> is \<^verbatim>\<open>element.propertyName\<close>, and \<open>uniqueName\<close> and \<open>counter\<close> are the two
  local variables.
\<close>

function whileUsed :: "string list \<Rightarrow> string \<Rightarrow> string \<Rightarrow> nat \<Rightarrow> string" where
  "whileUsed usedNames base uniqueName counter =
     (if uniqueName \<in> set usedNames
      then whileUsed usedNames base (base @ numberToString counter) (counter + 1)
      else uniqueName)"
  by pat_completeness auto
termination
proof (relation "measure (\<lambda>(usedNames, base, uniqueName, counter).
    2 * card {j. counter \<le> j \<and> base @ numberToString j \<in> set usedNames}
      + (if uniqueName \<in> set usedNames then 1 else 0))", goal_cases)
  case 1
  show ?case by simp
next
  case (2 usedNames base uniqueName counter)
  let ?A = "\<lambda>c. {j. c \<le> j \<and> base @ numberToString j \<in> set usedNames}"
  have "inj (\<lambda>j. base @ numberToString j)"
    by (rule injI) (simp add: numberToString_inj)
  then have "finite ((\<lambda>j. base @ numberToString j) -` set usedNames)"
    by (simp add: finite_vimageI)
  then have fin: "finite (?A c)" for c
    by (rule rev_finite_subset) auto
  show ?case
  proof (cases "base @ numberToString counter \<in> set usedNames")
    case True
    then have "?A counter = insert counter (?A (counter + 1))"
      by (auto simp: le_eq_less_or_eq)
    moreover have "counter \<notin> ?A (counter + 1)"
      by simp
    ultimately have "card (?A counter) = Suc (card (?A (counter + 1)))"
      using fin [of "counter + 1"] by (simp del: One_nat_def)
    with 2 True show ?thesis by simp
  next
    case False
    then have "?A counter = ?A (counter + 1)"
      by (auto simp: le_eq_less_or_eq Suc_le_eq) 
    with 2 False show ?thesis by simp
  qed
qed

declare whileUsed.simps [simp del]

text \<open>
  The \<^verbatim>\<open>map\<close> callback, with the set threaded through: \<^verbatim>\<open>usedNames.add(uniqueName)\<close> is
  \<^const>\<open>List.insert\<close>, and the spread \<^verbatim>\<open>{ ...element, propertyName: uniqueName }\<close> is a
  record update.
\<close>

fun uniquifyFrom :: "string list \<Rightarrow> AccessibleElement list \<Rightarrow> AccessibleElement list" where
  "uniquifyFrom usedNames [] = []"
| "uniquifyFrom usedNames (element # rest) =
     (let uniqueName = whileUsed usedNames (propertyName element) (propertyName element) 1
      in element\<lparr>propertyName := uniqueName\<rparr>
           # uniquifyFrom (List.insert uniqueName usedNames) rest)"

definition uniquifyPropertyNames :: "AccessibleElement list \<Rightarrow> AccessibleElement list" where
  "uniquifyPropertyNames elements = uniquifyFrom [] elements"

section \<open>Constants (constants.ts)\<close>

text \<open>
  \<^verbatim>\<open>DEFAULT_ELEMENT_TYPES\<close>, an object literal: the entries in the order they are written,
  each type with its list of selector patterns.
\<close>

definition DEFAULT_ELEMENT_TYPES :: "(string \<times> string list) list" where
  \<open>DEFAULT_ELEMENT_TYPES =
    [(''button'',
        [''button'', ''input[type="button"]'', ''input[type="submit"]'',
         ''input[type="reset"]'', ''[role="button"]'']),
     (''link'', [''a'', ''[role="link"]'']),
     (''input'',
        [''input[type="text"]'', ''input[type="email"]'', ''input[type="password"]'',
         ''input[type="number"]'', ''input[type="tel"]'', ''input[type="url"]'',
         ''input[type="search"]'']),
     (''checkbox'', [''input[type="checkbox"]'', ''[role="checkbox"]'']),
     (''radio'', [''input[type="radio"]'', ''[role="radio"]'']),
     (''select'', [''select'', ''[role="combobox"]'', ''[role="listbox"]'']),
     (''textarea'', [''textarea'']),
     (''image'', [''img'', ''[role="img"]'']),
     (''heading'', [''h1'', ''h2'', ''h3'', ''h4'', ''h5'', ''h6'', ''[role="heading"]'']),
     (''label'', [''label'', ''[role="label"]'']),
     (''alert'', [''[role="alert"]'', ''[role="status"]'', ''[role="alertdialog"]'']),
     (''dialog'', [''[role="dialog"]'', ''[role="modal"]'']),
     (''tab'', [''[role="tab"]'', ''[role="tabpanel"]'']),
     (''navigation'', [''nav'', ''[role="navigation"]'']),
     (''main'', [''main'', ''[role="main"]'']),
     (''aside'', [''aside'', ''[role="complementary"]'']),
     (''header'', [''header'', ''[role="banner"]'']),
     (''footer'', [''footer'', ''[role="contentinfo"]'']),
     (''section'', [''section'', ''article'']),
     (''text'', [''p'', ''span'', ''div''])]\<close>





section \<open>The element classifier (PageObjectGenerator.getElementType)\<close>

definition divSpanType :: "string \<Rightarrow> string option" where
  "divSpanType roleNormalized =
     (if roleNormalized \<in> set [''alert'', ''status'', ''alertdialog''] then Some ''alert''
      else if roleNormalized \<in> set [''dialog'', ''modal''] then Some ''dialog''
      else if roleNormalized = ''tab'' then Some ''tab''
      else None)"

definition specialTypes :: "string list" where
  "specialTypes =
     [''checkbox'', ''radio'', ''file'', ''range'', ''color'', ''date'', ''time'',
      ''datetime-local'', ''month'', ''week'', ''password'', ''email'', ''tel'', ''url'']"

definition getElementType :: "string \<Rightarrow> string \<Rightarrow> string \<Rightarrow> string" where
  "getElementType tagName' role' type' =
     (let tag = toLowerCase tagName';
          roleNormalized = toLowerCase role';
          typeNormalized = toLowerCase type'
      in
        if tag = ''button'' \<or> roleNormalized = ''button'' \<or>
           (tag = ''input'' \<and> typeNormalized \<in> set [''button'', ''submit'', ''reset''])
        then ''button''
        else if tag = ''a'' \<or> roleNormalized = ''link'' then ''link''
        else if tag = ''input'' then
          (if typeNormalized \<in> set specialTypes then typeNormalized else ''input'')
        else if tag = ''select'' \<or> roleNormalized = ''combobox'' then ''select''
        else if tag = ''textarea'' then ''textarea''
        else if tag = ''img'' \<or> roleNormalized = ''img'' then ''image''
        else if tag \<in> set [''h1'', ''h2'', ''h3'', ''h4'', ''h5'', ''h6''] then ''heading''
        else if tag = ''label'' \<or> roleNormalized = ''link'' then ''label''
        else
          (case (if tag = ''div'' \<or> tag = ''span'' then divSpanType roleNormalized else None) of
             Some t \<Rightarrow> t
           | None \<Rightarrow>
               if tag \<in> set [''p'', ''span'', ''div'', ''section'', ''article'', ''main'',
                              ''aside'', ''header'', ''footer'', ''nav'']
               then ''text''
               else orElse tag ''generic''))"

section \<open>The selector synthesizer (PageObjectGenerator.generateSelector)\<close>

text \<open>
  An attribute read \<^verbatim>\<open>attributes['k']\<close> is \<^term>\<open>map_of attrs k\<close>: \<^term>\<open>None\<close> is
  \<^verbatim>\<open>undefined\<close>. A value is truthy when it is there and not empty.
\<close>

definition truthy :: "string option \<Rightarrow> bool" where
  "truthy v = (case v of None \<Rightarrow> False | Some s \<Rightarrow> s \<noteq> [])"

text \<open>\<^verbatim>\<open>'${s}'\<close> and \<^verbatim>\<open>"${s}"\<close> in a template literal.\<close>

definition quoted :: "string \<Rightarrow> string" where
  "quoted s = CHR 0x27 # s @ [CHR 0x27]"

definition dquoted :: "string \<Rightarrow> string" where
  "dquoted s = CHR 0x22 # s @ [CHR 0x22]"

text \<open>\<^verbatim>\<open>s.split(d)[0]\<close> and \<^verbatim>\<open>s.split(d).pop()\<close>: the first and the last piece.\<close>

definition firstPiece :: "char \<Rightarrow> string \<Rightarrow> string" where
  "firstPiece d s = takeWhile (\<lambda>c. c \<noteq> d) s"

definition lastPiece :: "char \<Rightarrow> string \<Rightarrow> string" where
  "lastPiece d s = rev (takeWhile (\<lambda>c. c \<noteq> d) (rev s))"

text \<open>\<^verbatim>\<open>s.replace(p, '')\<close> for a string pattern: the first occurrence goes.\<close>

fun removeFirst :: "string \<Rightarrow> string \<Rightarrow> string" where
  "removeFirst p [] = []"
| "removeFirst p (c # cs) =
     (if startsWith (c # cs) p then drop (length p) (c # cs) else c # removeFirst p cs)"

text \<open>\<^verbatim>\<open>s.replace(/^https?:\/\//, '')\<close> and \<^verbatim>\<open>s.replace(/^www\./, '')\<close>.\<close>

definition stripScheme :: "string \<Rightarrow> string" where
  "stripScheme s =
     (if startsWith s ''https://'' then drop 8 s
      else if startsWith s ''http://'' then drop 7 s
      else s)"

definition stripWww :: "string \<Rightarrow> string" where
  "stripWww s = (if startsWith s ''www.'' then drop 4 s else s)"

definition socialDomains :: "(string \<times> string) list" where
  "socialDomains =
     [(''instagram.com'', ''instagram''), (''linkedin.com'', ''linkedin''),
      (''facebook.com'', ''facebook''), (''twitter.com'', ''twitter''),
      (''x.com'', ''twitter''), (''youtube.com'', ''youtube''), (''tiktok.com'', ''tiktok'')]"

text \<open>
  \<^verbatim>\<open>generateHrefName\<close>. The platform's \<^verbatim>\<open>new URL(s).hostname\<close> is the parameter
  \<open>urlHostname\<close>: \<^term>\<open>None\<close> when the constructor throws.
\<close>

definition generateHrefName :: "(string \<Rightarrow> string option) \<Rightarrow> string \<Rightarrow> string" where
  "generateHrefName urlHostname href =
     (case find (\<lambda>(domain, name'). includesStr href domain) socialDomains of
        Some (domain, name') \<Rightarrow> name'
      | None \<Rightarrow>
          if startsWith href ''mailto:'' then ''emailLink''
          else if startsWith href ''tel:'' then ''phoneLink''
          else
            (case urlHostname (if startsWith href ''http'' then href else ''https://'' @ href) of
               Some hostname \<Rightarrow>
                 (let domain = firstPiece CHR ''.'' (removeFirst ''www.'' hostname)
                  in if domain \<noteq> [] then domain @ ''Link'' else ''link'')
             | None \<Rightarrow>
                 (let cleanUrl =
                        firstPiece CHR ''.'' (firstPiece CHR ''/'' (stripWww (stripScheme href)))
                  in if cleanUrl \<noteq> [] then cleanUrl @ ''Link'' else ''link'')))"

definition generateHrefKey :: "(string \<Rightarrow> string option) \<Rightarrow> string \<Rightarrow> nat \<Rightarrow> string" where
  "generateHrefKey urlHostname href index =
     (let name' = generateHrefName urlHostname href
      in if name' = ''link'' then ''link_'' @ numberToString index else name')"

text \<open>One definition per \<^verbatim>\<open>if\<close> block of \<^verbatim>\<open>generateSelector\<close>; \<^term>\<open>None\<close> falls through.\<close>

definition roleBranch :: "string \<Rightarrow> string \<Rightarrow> string \<Rightarrow> ElementSelector option" where
  "roleBranch role' textContent' ariaLabel' =
     (if role' \<noteq> [] \<and> (ariaLabel' \<noteq> [] \<or> textContent' \<noteq> []) then
        (let accessibleName = orElse ariaLabel' textContent'
         in Some \<lparr>selector = ''getByRole('' @ quoted role' @ '', { name: ''
                     @ quoted (escapeString accessibleName) @ '' })'',
                  key = sanitizeKey accessibleName\<rparr>)
      else None)"

definition fieldBranch :: "string \<Rightarrow> string \<Rightarrow> string \<Rightarrow> ElementSelector option" where
  "fieldBranch tagName' ariaLabel' placeholder' =
     (if tagName' \<in> set [''input'', ''select'', ''textarea''] then
        (if ariaLabel' \<noteq> [] then
           Some \<lparr>selector = ''getByLabel('' @ quoted (escapeString ariaLabel') @ '')'',
                 key = sanitizeKey ariaLabel'\<rparr>
         else if placeholder' \<noteq> [] then
           Some \<lparr>selector = ''getByPlaceholder('' @ quoted (escapeString placeholder') @ '')'',
                 key = sanitizeKey placeholder'\<rparr>
         else None)
      else None)"

definition buttonBranch ::
  "string \<Rightarrow> string \<Rightarrow> string option \<Rightarrow> nat \<Rightarrow> ElementSelector option" where
  "buttonBranch tagName' textContent' type' index =
     (if tagName' = ''button'' \<or>
         (tagName' = ''input'' \<and> truthy type' \<and>
          (case type' of None \<Rightarrow> False | Some t \<Rightarrow> t \<in> set [''button'', ''submit'', ''reset'']))
      then
        (if textContent' \<noteq> [] then
           Some \<lparr>selector = ''getByRole('button', { name: ''
                     @ quoted (escapeString textContent') @ '' })'',
                 key = sanitizeKey textContent'\<rparr>
         else
           Some \<lparr>selector = ''getByRole('button')'',
                 key = ''button_'' @ numberToString index\<rparr>)
      else None)"

definition anchorBranch ::
  "(string \<Rightarrow> string option) \<Rightarrow> string \<Rightarrow> string \<Rightarrow> (string \<times> string) list \<Rightarrow> nat
     \<Rightarrow> ElementSelector option" where
  "anchorBranch urlHostname tagName' textContent' attrs index =
     (if tagName' = ''a'' then
        (if textContent' \<noteq> [] then
           Some \<lparr>selector = ''getByRole('link', { name: ''
                     @ quoted (escapeString textContent') @ '' })'',
                 key = sanitizeKey textContent'\<rparr>
         else
           (case map_of attrs ''href'' of
              Some href \<Rightarrow>
                if href \<noteq> [] \<and> href \<noteq> ''#'' \<and> length href > 0 then
                  Some \<lparr>selector = ''locator('' @ quoted (''a[href='' @ dquoted href @ '']'') @ '')'',
                        key = generateHrefKey urlHostname href index\<rparr>
                else
                  Some \<lparr>selector = ''locator('a').nth('' @ numberToString index @ '')'',
                        key = ''link_'' @ numberToString index\<rparr>
            | None \<Rightarrow>
                Some \<lparr>selector = ''locator('a').nth('' @ numberToString index @ '')'',
                      key = ''link_'' @ numberToString index\<rparr>))
      else None)"

definition imgBranch :: "string \<Rightarrow> (string \<times> string) list \<Rightarrow> nat \<Rightarrow> ElementSelector option" where
  "imgBranch tagName' attrs index =
     (if tagName' = ''img'' then
        (case map_of attrs ''alt'' of
           Some alt \<Rightarrow>
             if alt \<noteq> [] then
               Some \<lparr>selector = ''getByAltText('' @ quoted (escapeString alt) @ '')'',
                     key = sanitizeKey alt\<rparr>
             else
               Some \<lparr>selector = ''getByRole('img')'', key = ''image_'' @ numberToString index\<rparr>
         | None \<Rightarrow>
             Some \<lparr>selector = ''getByRole('img')'', key = ''image_'' @ numberToString index\<rparr>)
      else None)"

definition textBranch :: "string \<Rightarrow> ElementSelector option" where
  "textBranch textContent' =
     (if textContent' \<noteq> [] \<and> length textContent' > 0 \<and> length textContent' < 100 then
        Some \<lparr>selector = ''getByText('' @ quoted (escapeString textContent') @ '')'',
              key = sanitizeKey textContent'\<rparr>
      else None)"

definition testIdBranch :: "(string \<times> string) list \<Rightarrow> ElementSelector option" where
  "testIdBranch attrs =
     (case map_of attrs ''data-testid'' of
        Some testId \<Rightarrow>
          if testId \<noteq> [] then
            Some \<lparr>selector = ''getByTestId('' @ quoted testId @ '')'', key = sanitizeKey testId\<rparr>
          else None
      | None \<Rightarrow> None)"

definition idBranch :: "(string \<times> string) list \<Rightarrow> ElementSelector option" where
  "idBranch attrs =
     (case map_of attrs ''id'' of
        Some id' \<Rightarrow>
          if id' \<noteq> [] then
            Some \<lparr>selector = ''locator('' @ quoted (CHR ''#'' # id') @ '')'', key = sanitizeKey id'\<rparr>
          else None
      | None \<Rightarrow> None)"

definition nameBranch :: "(string \<times> string) list \<Rightarrow> ElementSelector option" where
  "nameBranch attrs =
     (case map_of attrs ''name'' of
        Some name' \<Rightarrow>
          if name' \<noteq> [] then
            Some \<lparr>selector = ''locator('' @ quoted (''[name='' @ dquoted name' @ '']'') @ '')'',
                  key = sanitizeKey name'\<rparr>
          else None
      | None \<Rightarrow> None)"

definition fallbackSelector :: "string \<Rightarrow> nat \<Rightarrow> ElementSelector" where
  "fallbackSelector tagName' index =
     \<lparr>selector = ''locator('' @ quoted tagName' @ '').nth('' @ numberToString index @ '')'',
      key = tagName' @ ''_'' @ numberToString index\<rparr>"

text \<open>The first branch that applies wins, in the order of the source.\<close>

fun firstOf :: "'a option list \<Rightarrow> 'a \<Rightarrow> 'a" where
  "firstOf [] d = d"
| "firstOf (None # rest) d = firstOf rest d"
| "firstOf (Some r # rest) d = r"

definition generateSelector ::
  "(string \<Rightarrow> string option) \<Rightarrow> string \<Rightarrow> string \<Rightarrow> string \<Rightarrow> string \<Rightarrow> string
     \<Rightarrow> (string \<times> string) list \<Rightarrow> nat \<Rightarrow> ElementSelector" where
  "generateSelector urlHostname tagName' role' textContent' ariaLabel' placeholder' attrs index =
     firstOf
       [roleBranch role' textContent' ariaLabel',
        fieldBranch tagName' ariaLabel' placeholder',
        buttonBranch tagName' textContent' (map_of attrs ''type'') index,
        anchorBranch urlHostname tagName' textContent' attrs index,
        imgBranch tagName' attrs index,
        textBranch textContent',
        testIdBranch attrs,
        idBranch attrs,
        nameBranch attrs]
       (fallbackSelector tagName' index)"

section \<open>The property-name synthesizer (PageObjectGenerator.generatePropertyName)\<close>

text \<open>
  In \<^verbatim>\<open>generateFallbackName\<close> every attribute is read and then tested for truthiness, so
  \<^verbatim>\<open>undefined\<close> and the empty string behave alike: \<open>attrOr\<close> reads both as the empty string.
\<close>

definition attrOr :: "(string \<times> string) list \<Rightarrow> string \<Rightarrow> string" where
  "attrOr attrs k = (case map_of attrs k of None \<Rightarrow> [] | Some v \<Rightarrow> v)"

definition generateFallbackName ::
  "(string \<Rightarrow> string option) \<Rightarrow> string \<Rightarrow> string \<Rightarrow> (string \<times> string) list \<Rightarrow> nat
     \<Rightarrow> string" where
  "generateFallbackName urlHostname elementType tagName' attrs index =
     (let typeIndex = elementType @ ''_'' @ numberToString index in
      if tagName' = ''a'' then
        (let href = attrOr attrs ''href'' in
         if href \<noteq> [] then generateHrefName urlHostname href else typeIndex)
      else if tagName' = ''img'' then
        (let alt = attrOr attrs ''alt''; src = attrOr attrs ''src'' in
         if alt \<noteq> [] then alt
         else if src \<noteq> [] then
           (let filename = firstPiece CHR ''.'' (lastPiece CHR ''/'' src)
            in if filename \<noteq> [] \<and> length filename > 0 then tagName' @ ''_'' @ filename
               else typeIndex)
         else typeIndex)
      else if tagName' \<in> set [''input'', ''select'', ''textarea''] then
        (let type' = attrOr attrs ''type''; value' = attrOr attrs ''value'' in
         if type' \<noteq> [] \<and> type' \<noteq> ''text'' then type' @ ''Input''
         else if value' \<noteq> [] \<and> length value' > 0 \<and> length value' < 20
         then tagName' @ ''_'' @ sanitizeKey value'
         else typeIndex)
      else if tagName' = ''button'' then
        (let type' = attrOr attrs ''type''; value' = attrOr attrs ''value'' in
         if value' \<noteq> [] \<and> length value' > 0 \<and> length value' < 20 then value'
         else if type' \<noteq> [] \<and> type' \<noteq> ''button'' then type' @ ''Button''
         else typeIndex)
      else typeIndex)"

definition generatePropertyName ::
  "(string \<Rightarrow> string option) \<Rightarrow> string \<Rightarrow> string \<Rightarrow> string \<Rightarrow> string \<Rightarrow> string
     \<Rightarrow> string \<Rightarrow> string \<Rightarrow> (string \<times> string) list \<Rightarrow> nat \<Rightarrow> string" where
  "generatePropertyName urlHostname elementType tagName' textContent' ariaLabel' placeholder'
       nameAttr' id' attrs index =
     (let name' =
        (if ariaLabel' \<noteq> [] \<and> length ariaLabel' > 0 \<and> length ariaLabel' < 50 then ariaLabel'
         else if nameAttr' \<noteq> [] then nameAttr'
         else if placeholder' \<noteq> [] then placeholder'
         else if textContent' \<noteq> [] \<and> length textContent' > 0 \<and> length textContent' < 50
         then textContent'
         else if id' \<noteq> [] then id'
         else generateFallbackName urlHostname elementType tagName' attrs index)
      in orElse (toCamelCase name') (''element'' @ numberToString index))"

section \<open>Reading one element (PageObjectGenerator.extractElementInfo)\<close>

text \<open>
  What the driver reports for one located element: the tag name, the text content
  (\<^term>\<open>None\<close> is \<^verbatim>\<open>null\<close>) and the attribute list in document order, each name once. The
  seven \<^verbatim>\<open>getAttribute\<close> reads and the \<^verbatim>\<open>evaluate\<close> over \<^verbatim>\<open>el.attributes\<close> see the same
  element. The snapshot object is only ever read by key.
\<close>

record DomElement =
  domTagName :: "string option"
  domTextContent :: "string option"
  domAttributes :: "(string \<times> string) list"

text \<open>\<^verbatim>\<open>(await element.getAttribute(k)) || ''\<close>.\<close>

definition getAttribute :: "DomElement \<Rightarrow> string \<Rightarrow> string" where
  "getAttribute el k = (case map_of (domAttributes el) k of None \<Rightarrow> [] | Some v \<Rightarrow> v)"

text \<open>The loop \<^verbatim>\<open>attrs[attr.name] = attr.value\<close> over \<^verbatim>\<open>el.attributes\<close>.\<close>

definition snapshotAttributes :: "DomElement \<Rightarrow> (string \<times> string) list" where
  "snapshotAttributes el = fold (\<lambda>(k, v) attrs. AList.update k v attrs) (domAttributes el) []"

definition extractElementInfo ::
  "(string \<Rightarrow> string option) \<Rightarrow> DomElement \<Rightarrow> nat \<Rightarrow> AccessibleElement" where
  "extractElementInfo urlHostname el index =
     (let tagName' = orElse (case domTagName el of None \<Rightarrow> [] | Some t \<Rightarrow> toLowerCase t)
                       ''unknown'';
          role' = getAttribute el ''role'';
          textContent' = (case domTextContent el of None \<Rightarrow> [] | Some t \<Rightarrow> trim t);
          id' = getAttribute el ''id'';
          className' = getAttribute el ''class'';
          nameAttr' = getAttribute el ''name'';
          placeholder' = getAttribute el ''placeholder'';
          ariaLabel' = getAttribute el ''aria-label'';
          ariaLabelledby' = getAttribute el ''aria-labelledby'';
          attrs = snapshotAttributes el;
          elementType = getElementType tagName' role'
                          (case map_of attrs ''type'' of None \<Rightarrow> [] | Some t \<Rightarrow> t);
          elementSelector = generateSelector urlHostname tagName' role' textContent' ariaLabel'
                              placeholder' attrs index;
          propertyName' = generatePropertyName urlHostname elementType tagName' textContent'
                            ariaLabel' placeholder' nameAttr' id' attrs index
      in \<lparr>name = propertyName',
          type = elementType,
          elSelector = elementSelector,
          tagName = tagName',
          textContent = textContent',
          elId = id',
          className = className',
          role = role',
          nameAttr = nameAttr',
          placeholder = placeholder',
          ariaLabel = ariaLabel',
          ariaLabelledby = ariaLabelledby',
          attributes = attrs,
          propertyName = propertyName',
          elKey = key elementSelector\<rparr>)"

section \<open>Errors and plain objects used as dictionaries\<close>

text \<open>A thrown value: an \<^verbatim>\<open>Error\<close> with its message, or the engine's \<^verbatim>\<open>TypeError\<close>.\<close>

datatype js_error = Error string | TypeError string

fun errorMessage :: "js_error \<Rightarrow> string" where
  "errorMessage (Error m) = m"
| "errorMessage (TypeError m) = m"

text \<open>
  \<^verbatim>\<open>groupBy\<close> collects the groups in a plain object \<^verbatim>\<open>{}\<close>. Two things about such an
  object decide what the function returns:
  \<^item> a key that \<^verbatim>\<open>Object.prototype\<close> already has is found by \<^verbatim>\<open>groups[key]\<close> before any
    group is stored (the value is a function, or the prototype itself: truthy), so no array is
    created and \<^verbatim>\<open>groups[key].push\<close> is not a function;
  \<^item> \<^verbatim>\<open>Object.values\<close> and \<^verbatim>\<open>Object.entries\<close> list the keys that are array indices first, in
    ascending numeric order, and the other keys after them in insertion order.
  The object is an association list in insertion order.
\<close>

definition objectPrototypeKeys :: "string list" where
  "objectPrototypeKeys =
     [''constructor'', ''__proto__'', ''hasOwnProperty'', ''isPrototypeOf'',
      ''propertyIsEnumerable'', ''toLocaleString'', ''toString'', ''valueOf'',
      ''__defineGetter__'', ''__defineSetter__'', ''__lookupGetter__'', ''__lookupSetter__'']"

text \<open>
  An array index is the canonical decimal form of an integer from 0 to \<open>2\<^sup>3\<^sup>2 - 2\<close>. Canonical
  forms have no leading zero, so their numeric order is: the shorter one first, and digit by
  digit from the left between two of the same length.
\<close>

fun digitsLE :: "string \<Rightarrow> string \<Rightarrow> bool" where
  "digitsLE [] bs = True"
| "digitsLE (a # as) [] = False"
| "digitsLE (a # as) (b # bs) = (code a < code b \<or> (a = b \<and> digitsLE as bs))"

definition indexKeyLE :: "string \<Rightarrow> string \<Rightarrow> bool" where
  "indexKeyLE a b \<longleftrightarrow> length a < length b \<or> (length a = length b \<and> digitsLE a b)"

definition isArrayIndex :: "string \<Rightarrow> bool" where
  "isArrayIndex s \<longleftrightarrow>
     s \<noteq> [] \<and> list_all isDigit s \<and> (s = ''0'' \<or> hd s \<noteq> CHR ''0'') \<and>
     indexKeyLE s ''4294967294''"

fun hasIndexKey :: "string \<times> 'a \<Rightarrow> bool" where
  "hasIndexKey (k, v) = isArrayIndex k"

fun hasNamedKey :: "string \<times> 'a \<Rightarrow> bool" where
  "hasNamedKey (k, v) = (\<not> isArrayIndex k)"

text \<open>The entries with an index key in ascending order, by insertion.\<close>

fun insertEntry :: "string \<times> 'a \<Rightarrow> (string \<times> 'a) list \<Rightarrow> (string \<times> 'a) list" where
  "insertEntry (k, v) [] = [(k, v)]"
| "insertEntry (k, v) ((k', v') # rest) =
     (if indexKeyLE k k' then (k, v) # (k', v') # rest
      else (k', v') # insertEntry (k, v) rest)"

definition sortEntries :: "(string \<times> 'a) list \<Rightarrow> (string \<times> 'a) list" where
  "sortEntries obj = foldr insertEntry obj []"

definition objectEntries :: "(string \<times> 'a) list \<Rightarrow> (string \<times> 'a) list" where
  "objectEntries obj = sortEntries (filter hasIndexKey obj) @ filter hasNamedKey obj"

definition objectValues :: "(string \<times> 'a) list \<Rightarrow> 'a list" where
  "objectValues obj = map snd (objectEntries obj)"

text \<open>One step of the \<^verbatim>\<open>reduce\<close> in \<^verbatim>\<open>groupBy\<close>, and the whole \<^verbatim>\<open>reduce\<close>.\<close>

definition groupStep ::
  "('a \<Rightarrow> string) \<Rightarrow> (string \<times> 'a list) list \<Rightarrow> 'a \<Rightarrow> js_error + (string \<times> 'a list) list" where
  "groupStep keyFn groups element =
     (let key' = keyFn element in
      case map_of groups key' of
        Some grp \<Rightarrow> Inr (AList.update key' (grp @ [element]) groups)
      | None \<Rightarrow>
          if key' \<in> set objectPrototypeKeys
          then Inl (TypeError ''groups[key].push is not a function'')
          else Inr (groups @ [(key', [element])]))"

fun groupReduce ::
  "('a \<Rightarrow> string) \<Rightarrow> (string \<times> 'a list) list \<Rightarrow> 'a list \<Rightarrow> js_error + (string \<times> 'a list) list"
  where
  "groupReduce keyFn groups [] = Inr groups"
| "groupReduce keyFn groups (element # rest) =
     (case groupStep keyFn groups element of
        Inl e \<Rightarrow> Inl e
      | Inr groups' \<Rightarrow> groupReduce keyFn groups' rest)"

definition groupBy :: "'a list \<Rightarrow> ('a \<Rightarrow> string) \<Rightarrow> js_error + (string \<times> 'a list) list" where
  "groupBy elements keyFn = groupReduce keyFn [] elements"

section \<open>The filters (filters.ts)\<close>

text \<open>\<^verbatim>\<open>.map(group => group[0]).filter(el => el !== undefined)\<close>.\<close>

definition firstOfGroup :: "'a list \<Rightarrow> 'a option" where
  "firstOfGroup grp = (case grp of [] \<Rightarrow> None | el # rest \<Rightarrow> Some el)"

definition DuplicateElementFilter_filter ::
  "AccessibleElement list \<Rightarrow> js_error + AccessibleElement list" where
  "DuplicateElementFilter_filter elements =
     (case groupBy elements (\<lambda>el. selector (elSelector el)) of
        Inl e \<Rightarrow> Inl e
      | Inr grouped \<Rightarrow> Inr (List.map_filter firstOfGroup (objectValues grouped)))"

text \<open>\<^verbatim>\<open>attributes['style']?.includes(p)\<close>: \<^verbatim>\<open>undefined\<close>, which is falsy, without a style.\<close>

definition styleIncludes :: "(string \<times> string) list \<Rightarrow> string \<Rightarrow> bool" where
  "styleIncludes attrs p =
     (case map_of attrs ''style'' of None \<Rightarrow> False | Some style \<Rightarrow> includesStr style p)"

definition hiddenKeeps :: "AccessibleElement \<Rightarrow> bool" where
  "hiddenKeeps element =
     (let attrs = attributes element in
      if map_of attrs ''hidden'' = Some [] \<or>
         map_of attrs ''aria-hidden'' = Some ''true'' \<or>
         styleIncludes attrs ''display: none'' \<or>
         styleIncludes attrs ''visibility: hidden'' \<or>
         styleIncludes attrs ''opacity: 0''
      then False
      else
        (let className' = className element in
         if includesStr className' ''hidden'' \<or>
            includesStr className' ''invisible'' \<or>
            includesStr className' ''sr-only'' \<or>
            includesStr className' ''visually-hidden''
         then False
         else if map_of attrs ''width'' = Some ''0'' \<or>
                 map_of attrs ''height'' = Some ''0'' \<or>
                 styleIncludes attrs ''width: 0'' \<or>
                 styleIncludes attrs ''height: 0''
         then False
         else if tagName element \<in> set [''script'', ''style'', ''noscript'', ''meta'', ''link'',
                                          ''title'', ''head'']
         then False
         else True))"

definition HiddenElementFilter_filter :: "AccessibleElement list \<Rightarrow> AccessibleElement list" where
  "HiddenElementFilter_filter elements = filter hiddenKeeps elements"

text \<open>\<^verbatim>\<open>MeaningfulContentFilter\<close>. \<^verbatim>\<open>/[A-Z][a-z]/.test(s)\<close>:\<close>

fun hasUpperThenLower :: "string \<Rightarrow> bool" where
  "hasUpperThenLower (a # b # cs) = ((isUpper a \<and> isLower b) \<or> hasUpperThenLower (b # cs))"
| "hasUpperThenLower cs = False"

text \<open>
  \<^verbatim>\<open>specialCharRatio > 0.7\<close> compares the quotient of two integers, the divisor at most 80,
  with the double nearest to 0.7, which lies below 7/10: the test holds exactly when ten times
  the count exceeds seven times the length.
\<close>

definition isMeaningfulText :: "string \<Rightarrow> bool" where
  "isMeaningfulText text' =
     (let trimmed = trim text' in
      if length trimmed < 2 then False
      else if includesStr trimmed ''{'' \<and> includesStr trimmed ''}'' then False
      else if includesStr trimmed '';'' \<and> includesStr trimmed '':'' then False
      else if startsWith trimmed ''.'' \<or> startsWith trimmed ''#'' then False
      else if includesStr trimmed ''function('' \<or> includesStr trimmed ''var '' then False
      else if includesStr trimmed ''document.'' \<or> includesStr trimmed ''window.'' then False
      else if length trimmed > 80 then False
      else if length trimmed > 30 \<and> \<not> includesStr trimmed '' '' \<and> hasUpperThenLower trimmed
      then False
      else if 10 * length (filter (\<lambda>c. \<not> isAlnum c \<and> \<not> isSpace c) trimmed) > 7 * length trimmed
      then False
      else True)"

definition hasInteractiveAttributes :: "AccessibleElement \<Rightarrow> bool" where
  "hasInteractiveAttributes element =
     (let attrs = attributes element in
      truthy (map_of attrs ''onclick'') \<or>
      truthy (map_of attrs ''onfocus'') \<or>
      truthy (map_of attrs ''onblur'') \<or>
      truthy (map_of attrs ''onmouseover'') \<or>
      truthy (map_of attrs ''onmouseenter'') \<or>
      truthy (map_of attrs ''tabindex'') \<or>
      map_of attrs ''role'' = Some ''button'' \<or>
      map_of attrs ''role'' = Some ''link'' \<or>
      map_of attrs ''role'' = Some ''tab'' \<or>
      map_of attrs ''role'' = Some ''menuitem'')"

definition isInteractiveElement :: "AccessibleElement \<Rightarrow> bool" where
  "isInteractiveElement element =
     (if type element \<in> set [''button'', ''link'', ''input'', ''select'', ''textarea'', ''tab'']
      then True
      else if hasInteractiveAttributes element then True
      else if truthy (map_of (attributes element) ''onclick'') \<or>
              truthy (map_of (attributes element) ''onfocus'') \<or>
              truthy (map_of (attributes element) ''tabindex'')
      then True
      else False)"

definition meaningfulKeeps :: "AccessibleElement \<Rightarrow> bool" where
  "meaningfulKeeps element =
     (if textContent element = [] \<and> ariaLabel element = [] \<and> placeholder element = [] \<and>
         elId element = [] \<and> nameAttr element = []
      then False
      else if tagName element = ''div'' \<and> type element = ''text'' \<and>
              length (textContent element) > 200
      then False
      else if textContent element \<noteq> [] \<and> \<not> isMeaningfulText (textContent element)
      then False
      else if includesStr (selector (elSelector element)) ''.nth('' \<and> elId element = [] \<and>
              ariaLabel element = [] \<and> textContent element = []
      then False
      else if textContent element \<noteq> [] \<and> length (textContent element) > 50 \<and>
              \<not> isInteractiveElement element
      then False
      else if type element = ''text'' \<and> \<not> hasInteractiveAttributes element \<and>
              length (textContent element) > 30
      then False
      else True)"

definition MeaningfulContentFilter_filter :: "AccessibleElement list \<Rightarrow> AccessibleElement list"
  where
  "MeaningfulContentFilter_filter elements = filter meaningfulKeeps elements"

text \<open>The selector expression of an element, \<^verbatim>\<open>el.selector.selector\<close>.\<close>

abbreviation selectorOf :: "AccessibleElement \<Rightarrow> string" where
  "selectorOf el \<equiv> selector (elSelector el)"

text \<open>
  The duplicate-removal stage as the specification words it, to compare the filter with:
  "group by selector expression, keep only the first element per group (stable, preserves
  first-seen order)". \<open>seen\<close> holds the selector expressions met so far.
\<close>

fun firstPerSelector :: "string list \<Rightarrow> AccessibleElement list \<Rightarrow> AccessibleElement list" where
  "firstPerSelector seen [] = []"
| "firstPerSelector seen (el # rest) =
     (if selectorOf el \<in> set seen then firstPerSelector seen rest
      else el # firstPerSelector (selectorOf el # seen) rest)"

text \<open>The first elements of the groups of a \<^verbatim>\<open>groupBy\<close> object, in insertion order.\<close>

definition heads :: "(string \<times> AccessibleElement list) list \<Rightarrow> AccessibleElement list" where
  "heads groups = List.map_filter firstOfGroup (map snd groups)"

section \<open>The page and what is done to it\<close>

text \<open>
  The browser is outside the program; the page is what it answers.
  \<^item> \<open>locatorAll sel\<close> is the outcome of \<^verbatim>\<open>page.locator(sel).all()\<close> raced against its
    10 s timer: the handles, or the error thrown (the timer's error when it fires first).
  \<^item> A handle is \<^term>\<open>Some el\<close> when the reads of \<^verbatim>\<open>extractElementInfo\<close> succeed within the
    element's 5 s timer, and \<^term>\<open>None\<close> when one of them throws or the timer fires first.
  \<^item> \<open>isVisible i sel\<close> is the outcome of \<^verbatim>\<open>page.locator(sel).isVisible()\<close> for the \<open>i\<close>-th
    element the visibility stage asks about.
  \<^item> \<open>exceedsCallTimeout\<close> says that an extraction which awaits the page does not settle
    within the 60 s of the whole call.
  The result of \<^verbatim>\<open>page.waitForLoadState\<close> is dropped by the source and has no field.
\<close>

record Page =
  locatorAll :: "string \<Rightarrow> js_error + DomElement option list"
  isVisible :: "nat \<Rightarrow> ElementSelector \<Rightarrow> js_error + bool"
  exceedsCallTimeout :: bool

text \<open>What a call does, in order: the page interactions and the filter runs.\<close>

datatype event =
    WaitForLoadState
  | LocatorAll string
  | ReadElement nat
  | RunFilter string
  | RunFilterAsync string
  | IsVisible ElementSelector

text \<open>
  \<^verbatim>\<open>executeWithTimeout\<close>, given the outcome of the race between the operation and the timer:
  an error is thrown again with the operation's name in front.
\<close>

definition executeWithTimeout :: "js_error + 'a \<Rightarrow> string \<Rightarrow> js_error + 'a" where
  "executeWithTimeout outcome operationName =
     (case outcome of
        Inl e \<Rightarrow> Inl (Error (operationName @ '' failed: '' @ errorMessage e))
      | Inr v \<Rightarrow> Inr v)"

text \<open>
  The loop of \<^verbatim>\<open>VisibilityFilter.filterAsync\<close>: \<open>i\<close> counts the elements asked about,
  \<open>visibleElements\<close> is the array the loop pushes to. The \<^verbatim>\<open>catch\<close> pushes too.
\<close>

fun visibleLoop ::
  "Page \<Rightarrow> nat \<Rightarrow> AccessibleElement list \<Rightarrow> AccessibleElement list
     \<Rightarrow> event list \<times> AccessibleElement list" where
  "visibleLoop page i [] visibleElements = ([], visibleElements)"
| "visibleLoop page i (element # rest) visibleElements =
     (case visibleLoop page (Suc i) rest
             (case isVisible page i (elSelector element) of
                Inr visible \<Rightarrow> if visible then visibleElements @ [element] else visibleElements
              | Inl e \<Rightarrow> visibleElements @ [element]) of
        (events, result) \<Rightarrow> (IsVisible (elSelector element) # events, result))"

definition VisibilityFilter_filterAsync ::
  "bool \<Rightarrow> Page \<Rightarrow> AccessibleElement list \<Rightarrow> event list \<times> AccessibleElement list" where
  "VisibilityFilter_filterAsync enabled' page elements =
     (if \<not> enabled' then ([], elements) else visibleLoop page 0 elements [])"

section \<open>Filter stages and configuration (types.ts, PageObjectGenerator.mergeConfig)\<close>

text \<open>
  \<^verbatim>\<open>ElementFilter\<close>: \<^verbatim>\<open>name\<close> is \<open>filterName\<close>, \<^verbatim>\<open>filter\<close> is \<open>filterFn\<close> and \<^verbatim>\<open>filterAsync\<close>
  is \<open>filterAsyncFn\<close>. A stage may throw.
\<close>

record ElementFilter =
  filterName :: string
  description :: string
  enabled :: bool
  filterFn :: "AccessibleElement list \<Rightarrow> js_error + AccessibleElement list"
  filterAsyncFn ::
    "(Page \<Rightarrow> AccessibleElement list \<Rightarrow> event list \<times> (js_error + AccessibleElement list)) option"

definition DuplicateElementFilter :: ElementFilter where
  "DuplicateElementFilter =
     \<lparr>filterName = ''DuplicateElementFilter'',
      description = ''Removes duplicate elements with the same selector'',
      enabled = True,
      filterFn = DuplicateElementFilter_filter,
      filterAsyncFn = None\<rparr>"

definition HiddenElementFilter :: ElementFilter where
  "HiddenElementFilter =
     \<lparr>filterName = ''HiddenElementFilter'',
      description = ''Removes hidden elements unless explicitly included'',
      enabled = True,
      filterFn = (\<lambda>elements. Inr (HiddenElementFilter_filter elements)),
      filterAsyncFn = None\<rparr>"

definition MeaningfulContentFilter :: ElementFilter where
  "MeaningfulContentFilter =
     \<lparr>filterName = ''MeaningfulContentFilter'',
      description = ''Removes elements with no meaningful content'',
      enabled = True,
      filterFn = (\<lambda>elements. Inr (MeaningfulContentFilter_filter elements)),
      filterAsyncFn = None\<rparr>"

definition VisibilityFilter :: "bool \<Rightarrow> ElementFilter" where
  "VisibilityFilter enabled' =
     \<lparr>filterName = ''VisibilityFilter'',
      description = ''Removes elements that are not visible on the page (runtime check)'',
      enabled = enabled',
      filterFn = (\<lambda>elements. Inr elements),
      filterAsyncFn = Some (\<lambda>page elements.
        case VisibilityFilter_filterAsync enabled' page elements of
          (events, result) \<Rightarrow> (events, Inr result))\<rparr>"

text \<open>
  \<^verbatim>\<open>PageObjectConfig\<close>: every field is optional, \<^term>\<open>None\<close> when the caller leaves it out.
  \<^verbatim>\<open>maxTextLength\<close>, a number of characters, is an integer.
\<close>

record PageObjectConfig =
  containerSelector :: "string option"
  interactiveOnly :: "bool option"
  maxTextLength :: "int option"
  namingConvention :: "string option"
  selectorPriorities :: "string list option"
  excludeSelectors :: "string list option"
  includeSelectors :: "string list option"
  customElementTypes :: "(string \<times> string list) list option"
  elementTypeMappings :: "(string \<times> string) list option"
  elementFilters :: "ElementFilter list option"
  includeHiddenElements :: "bool option"
  enableRuntimeVisibilityCheck :: "bool option"
  includeHelpers :: "bool option"

text \<open>The call \<^verbatim>\<open>extractAccessibleElements(page)\<close> without a configuration: \<^verbatim>\<open>{}\<close>.\<close>

definition emptyConfig :: PageObjectConfig where
  "emptyConfig =
     \<lparr>containerSelector = None, interactiveOnly = None, maxTextLength = None,
      namingConvention = None, selectorPriorities = None, excludeSelectors = None,
      includeSelectors = None, customElementTypes = None, elementTypeMappings = None,
      elementFilters = None, includeHiddenElements = None,
      enableRuntimeVisibilityCheck = None, includeHelpers = None\<rparr>"

text \<open>\<^verbatim>\<open>Required<PageObjectConfig>\<close>, the merged configuration: the same fields with \<open>req\<close> in front.\<close>

record RequiredConfig =
  reqContainerSelector :: string
  reqInteractiveOnly :: bool
  reqMaxTextLength :: int
  reqNamingConvention :: string
  reqSelectorPriorities :: "string list"
  reqExcludeSelectors :: "string list"
  reqIncludeSelectors :: "string list"
  reqCustomElementTypes :: "(string \<times> string list) list"
  reqElementTypeMappings :: "(string \<times> string) list"
  reqElementFilters :: "ElementFilter list"
  reqIncludeHiddenElements :: bool
  reqEnableRuntimeVisibilityCheck :: bool
  reqIncludeHelpers :: bool

text \<open>\<^verbatim>\<open>x || d\<close> and the spread of an optional field over its default.\<close>

definition orDefault :: "'a option \<Rightarrow> 'a \<Rightarrow> 'a" where
  "orDefault v d = (case v of None \<Rightarrow> d | Some x \<Rightarrow> x)"

definition mergeConfig :: "PageObjectConfig \<Rightarrow> RequiredConfig" where
  "mergeConfig userConfig =
     \<lparr>reqContainerSelector = orDefault (containerSelector userConfig) ''body'',
      reqInteractiveOnly = orDefault (interactiveOnly userConfig) True,
      reqMaxTextLength = orDefault (maxTextLength userConfig) 100,
      reqNamingConvention = orDefault (namingConvention userConfig) ''camelCase'',
      reqSelectorPriorities = orDefault (selectorPriorities userConfig)
        [''role'', ''testid'', ''label'', ''text'', ''id'', ''css''],
      reqExcludeSelectors =
        [''script'', ''style'', ''noscript'', ''meta'', ''link'', ''title'', ''head'']
          @ orDefault (excludeSelectors userConfig) [],
      reqIncludeSelectors = orDefault (includeSelectors userConfig) [],
      reqCustomElementTypes =
        fold (\<lambda>(k, v) obj. AList.update k v obj) (orDefault (customElementTypes userConfig) [])
          DEFAULT_ELEMENT_TYPES,
      reqElementTypeMappings = orDefault (elementTypeMappings userConfig) [],
      reqElementFilters =
        orDefault (elementFilters userConfig) []
          @ [DuplicateElementFilter, HiddenElementFilter, MeaningfulContentFilter,
             VisibilityFilter (orDefault (enableRuntimeVisibilityCheck userConfig) False)],
      reqIncludeHiddenElements = orDefault (includeHiddenElements userConfig) False,
      reqEnableRuntimeVisibilityCheck = orDefault (enableRuntimeVisibilityCheck userConfig) False,
      reqIncludeHelpers = orDefault (includeHelpers userConfig) True\<rparr>"

text \<open>\<^verbatim>\<open>ValidationResult\<close>, with \<open>v\<close> in front of the field names.\<close>

record ValidationResult =
  vType :: string
  vMessage :: string
  vSuggestion :: "string option"

text \<open>
  \<^verbatim>\<open>validateConfig\<close>. \<^verbatim>\<open>config.maxTextLength && ...\<close> is falsy for a missing field and for
  the number 0; \<^verbatim>\<open>config.selectorPriorities && ...\<close> is truthy for every array.
\<close>

definition validateConfig :: "PageObjectConfig \<Rightarrow> ValidationResult list" where
  "validateConfig config =
     (if (case maxTextLength config of None \<Rightarrow> False | Some n \<Rightarrow> n \<noteq> 0 \<and> n < 1)
      then [\<lparr>vType = ''error'', vMessage = ''maxTextLength must be at least 1'',
              vSuggestion = Some ''Set maxTextLength to a value >= 1''\<rparr>]
      else [])
     @
     (if (case selectorPriorities config of None \<Rightarrow> False | Some ps \<Rightarrow> length ps = 0)
      then [\<lparr>vType = ''error'', vMessage = ''selectorPriorities cannot be empty'',
              vSuggestion = Some ''Provide at least one selector priority or use defaults''\<rparr>]
      else [])"

section \<open>The query string (selectors.ts)\<close>

text \<open>\<^verbatim>\<open>xs.join(sep)\<close>.\<close>

definition join :: "string \<Rightarrow> string list \<Rightarrow> string" where
  "join sep xs = (case xs of [] \<Rightarrow> [] | x # rest \<Rightarrow> x @ concat (map (\<lambda>y. sep @ y) rest))"

definition interactiveSelectors :: "string list" where
  \<open>interactiveSelectors =
     [''button'', ''a'', ''input'', ''select'', ''textarea'', ''[role="button"]'',
      ''[role="link"]'', ''[role="tab"]'', ''[role="menuitem"]'', ''[role="combobox"]'',
      ''[role="listbox"]'', ''[role="checkbox"]'', ''[role="radio"]'', ''[onclick]'',
      ''[onfocus]'', ''[onblur]'', ''[tabindex]'', ''[data-testid]'', ''label'']\<close>

definition defaultSelectors :: "string list" where
  "defaultSelectors =
     [''[role]'', ''button'', ''a'', ''input'', ''select'', ''textarea'', ''img'', ''h1'',
      ''h2'', ''h3'', ''h4'', ''h5'', ''h6'', ''label'', ''p'', ''span'', ''div'', ''section'',
      ''article'', ''main'', ''aside'', ''header'', ''footer'', ''nav'']"

definition buildSelectorString :: "RequiredConfig \<Rightarrow> string" where
  "buildSelectorString config =
     (let container = reqContainerSelector config;
          scoped = (\<lambda>selectors. container @ '' '' @ join ('', '' @ container @ '' '') selectors)
      in
        if length (reqIncludeSelectors config) > 0 then scoped (reqIncludeSelectors config)
        else if reqInteractiveOnly config then scoped interactiveSelectors
        else scoped defaultSelectors)"

section \<open>The orchestrator (PageObjectGenerator.extractAccessibleElements)\<close>

text \<open>
  The batch loop: \<open>i\<close> is the loop variable, \<open>elementDetails\<close> the array the loop pushes to.
  A handle that cannot be read gives \<^verbatim>\<open>null\<close>, which the \<^verbatim>\<open>filter\<close> drops. The reads of one
  batch run concurrently; the events list them by index.
\<close>

definition batchSize :: nat where
  "batchSize = 5"

text \<open>The callback of \<^verbatim>\<open>batch.map\<close>: \<open>i\<close> is the start of the batch.\<close>

fun processBatchItem ::
  "(string \<Rightarrow> string option) \<Rightarrow> nat \<Rightarrow> nat \<times> DomElement option \<Rightarrow> AccessibleElement option"
  where
  "processBatchItem urlHostname i (batchIndex, None) = None"
| "processBatchItem urlHostname i (batchIndex, Some el) =
     Some (extractElementInfo urlHostname el (i + batchIndex))"

function extractBatches ::
  "(string \<Rightarrow> string option) \<Rightarrow> DomElement option list \<Rightarrow> nat \<Rightarrow> AccessibleElement list
     \<Rightarrow> event list \<times> AccessibleElement list" where
  "extractBatches urlHostname elementHandles i elementDetails =
     (if i < length elementHandles then
        (let batch = take batchSize (drop i elementHandles);
             batchResults = map (processBatchItem urlHostname i) (enumerate 0 batch);
             validElements = List.map_filter id batchResults
         in case extractBatches urlHostname elementHandles (i + batchSize)
                   (elementDetails @ validElements) of
              (events, result) \<Rightarrow> (map ReadElement [i..<i + length batch] @ events, result))
      else ([], elementDetails))"
  by pat_completeness auto
termination
  by (relation "measure (\<lambda>(urlHostname, elementHandles, i, elementDetails).
        length elementHandles - i)") (auto simp: batchSize_def)

declare extractBatches.simps [simp del]

text \<open>The two loops over \<^verbatim>\<open>mergedConfig.elementFilters\<close>.\<close>

fun applySyncFilters ::
  "ElementFilter list \<Rightarrow> AccessibleElement list
     \<Rightarrow> event list \<times> (js_error + AccessibleElement list)" where
  "applySyncFilters [] filteredElements = ([], Inr filteredElements)"
| "applySyncFilters (f # rest) filteredElements =
     (if enabled f then
        (case filterFn f filteredElements of
           Inl e \<Rightarrow> ([RunFilter (filterName f)], Inl e)
         | Inr filteredElements' \<Rightarrow>
             (case applySyncFilters rest filteredElements' of
                (events, result) \<Rightarrow> (RunFilter (filterName f) # events, result)))
      else applySyncFilters rest filteredElements)"

fun applyAsyncFilters ::
  "Page \<Rightarrow> ElementFilter list \<Rightarrow> AccessibleElement list
     \<Rightarrow> event list \<times> (js_error + AccessibleElement list)" where
  "applyAsyncFilters page [] filteredElements = ([], Inr filteredElements)"
| "applyAsyncFilters page (f # rest) filteredElements =
     (case (if enabled f then filterAsyncFn f else None) of
        None \<Rightarrow> applyAsyncFilters page rest filteredElements
      | Some filterAsync \<Rightarrow>
          (case filterAsync page filteredElements of
             (events, Inl e) \<Rightarrow> (RunFilterAsync (filterName f) # events, Inl e)
           | (events, Inr filteredElements') \<Rightarrow>
               (case applyAsyncFilters page rest filteredElements' of
                  (events', result) \<Rightarrow>
                    (RunFilterAsync (filterName f) # events @ events', result))))"

definition extractAccessibleElementsInternal ::
  "(string \<Rightarrow> string option) \<Rightarrow> Page \<Rightarrow> PageObjectConfig
     \<Rightarrow> event list \<times> (js_error + AccessibleElement list)" where
  "extractAccessibleElementsInternal urlHostname page config =
     (let mergedConfig = mergeConfig config;
          validationResults = validateConfig config
      in
        if list_ex (\<lambda>r. vType r = ''error'') validationResults then
          ([], Inl (Error (''Configuration validation failed: ''
                 @ join '', '' (map vMessage
                     (filter (\<lambda>r. vType r = ''error'') validationResults)))))
        else
          (let selector' = buildSelectorString mergedConfig;
               started = [WaitForLoadState, LocatorAll selector']
           in
             case executeWithTimeout (locatorAll page selector') ''Element selection'' of
               Inl e \<Rightarrow> (started, Inl e)
             | Inr elementHandles \<Rightarrow>
                 (case extractBatches urlHostname elementHandles 0 [] of
                    (reads, elementDetails) \<Rightarrow>
                      (case applySyncFilters (reqElementFilters mergedConfig) elementDetails of
                         (runs, Inl e) \<Rightarrow> (started @ reads @ runs, Inl e)
                       | (runs, Inr filteredElements) \<Rightarrow>
                           (case applyAsyncFilters page (reqElementFilters mergedConfig)
                                   filteredElements of
                              (checks, Inl e) \<Rightarrow> (started @ reads @ runs @ checks, Inl e)
                            | (checks, Inr filteredElements') \<Rightarrow>
                                (started @ reads @ runs @ checks,
                                 Inr (uniquifyPropertyNames filteredElements')))))))"

text \<open>
  The public entry point wraps the whole extraction in the 60 s timer. A rejected
  configuration settles before anything is awaited, so the timer can only win when the page
  has been used.
\<close>

definition extractAccessibleElements ::
  "(string \<Rightarrow> string option) \<Rightarrow> Page \<Rightarrow> PageObjectConfig
     \<Rightarrow> event list \<times> (js_error + AccessibleElement list)" where
  "extractAccessibleElements urlHostname page config =
     (case extractAccessibleElementsInternal urlHostname page config of
        (events, outcome) \<Rightarrow>
          (events,
           executeWithTimeout
             (if events \<noteq> [] \<and> exceedsCallTimeout page
              then Inl (Error ''Element extraction timeout after 60000ms'')
              else outcome)
             ''Element extraction''))"

section \<open>Example documents\<close>

text \<open>A platform on which \<^verbatim>\<open>new URL\<close> always throws.\<close>

definition neverParses :: "string \<Rightarrow> string option" where
  "neverParses s = None"

text \<open>\<^verbatim>\<open><button aria-label="label">text</button>\<close>.\<close>

definition labelledButton :: "string \<Rightarrow> string \<Rightarrow> DomElement" where
  "labelledButton label text' =
     \<lparr>domTagName = Some ''BUTTON'', domTextContent = Some text',
      domAttributes = [(''aria-label'', label)]\<rparr>"

text \<open>A page on which every query finds the given elements, all readable and visible.\<close>

definition pageOf :: "DomElement list \<Rightarrow> Page" where
  "pageOf els =
     \<lparr>locatorAll = (\<lambda>s. Inr (map Some els)),
      isVisible = (\<lambda>i s. Inr True),
      exceedsCallTimeout = False\<rparr>"

definition threeButtons :: "DomElement list" where
  "threeButtons =
     [labelledButton ''a'' ''Xx'', labelledButton ''a'' ''Yy'', labelledButton ''a 1'' ''Zz'']"

text \<open>The records \<^verbatim>\<open>extractElementInfo\<close> builds for the three buttons.\<close>

definition threeButtonElements :: "AccessibleElement list" where
  "threeButtonElements =
     [extractElementInfo neverParses (labelledButton ''a'' ''Xx'') 0,
      extractElementInfo neverParses (labelledButton ''a'' ''Yy'') 1,
      extractElementInfo neverParses (labelledButton ''a 1'' ''Zz'') 2]"

text \<open>\<^verbatim>\<open><input type="email" aria-label="Email Address">\<close>.\<close>

definition emailInput :: DomElement where
  "emailInput =
     \<lparr>domTagName = Some ''INPUT'', domTextContent = Some [],
      domAttributes = [(''type'', ''email''), (''aria-label'', ''Email Address'')]\<rparr>"

text \<open>\<^verbatim>\<open><div hidden="hidden" id="secret">Secret</div>\<close>.\<close>

definition hiddenDiv :: DomElement where
  "hiddenDiv =
     \<lparr>domTagName = Some ''DIV'', domTextContent = Some ''Secret'',
      domAttributes = [(''hidden'', ''hidden''), (''id'', ''secret'')]\<rparr>"

text \<open>A \<^verbatim>\<open>div\<close> without text whose \<^verbatim>\<open>data-testid\<close> is \<^verbatim>\<open>it's\<close>.\<close>

definition quoteTestId :: DomElement where
  "quoteTestId =
     \<lparr>domTagName = Some ''DIV'', domTextContent = Some [],
      domAttributes = [(''data-testid'', ''it's'')]\<rparr>"

text \<open>The configuration \<^verbatim>\<open>{ maxTextLength: 0 }\<close>.\<close>

definition zeroLengthConfig :: PageObjectConfig where
  "zeroLengthConfig = emptyConfig\<lparr>maxTextLength := Some 0\<rparr>"

text \<open>An element record as a caller or a custom filter may hand it to a filter: a \<^verbatim>\<open>div\<close> with
  the given text as its selector expression, key and names.\<close>

definition selectorOnly :: "string \<Rightarrow> AccessibleElement" where
  "selectorOnly s =
     \<lparr>name = s, type = ''text'', elSelector = \<lparr>selector = s, key = s\<rparr>, tagName = ''div'',
      textContent = s, elId = [], className = [], role = [], nameAttr = [], placeholder = [],
      ariaLabel = [], ariaLabelledby = [], attributes = [], propertyName = s, elKey = s\<rparr>"

text \<open>\<^verbatim>\<open><button id="ident">Submit</button>\<close>, and two of them with another button between.\<close>

definition submitButton :: "string \<Rightarrow> DomElement" where
  "submitButton ident =
     \<lparr>domTagName = Some ''BUTTON'', domTextContent = Some ''Submit'',
      domAttributes = [(''id'', ident)]\<rparr>"

definition twoSubmits :: "AccessibleElement list" where
  "twoSubmits =
     [extractElementInfo neverParses (submitButton ''first'') 0,
      extractElementInfo neverParses (labelledButton ''a'' ''Xx'') 1,
      extractElementInfo neverParses (submitButton ''second'') 2]"

section \<open>Properties of the identifier utilities\<close>











section \<open>Properties of uniquifyPropertyNames\<close>

lemma whileUsed_unused: "whileUsed usedNames base uniqueName counter \<notin> set usedNames"
  by (induction usedNames base uniqueName counter rule: whileUsed.induct)
    (simp add: whileUsed.simps)

lemma whileUsed_fresh:
  "uniqueName \<notin> set usedNames \<Longrightarrow> whileUsed usedNames base uniqueName counter = uniqueName"
  by (simp add: whileUsed.simps)

lemma whileUsed_step:
  "uniqueName \<in> set usedNames \<Longrightarrow>
     whileUsed usedNames base uniqueName counter =
       whileUsed usedNames base (base @ numberToString counter) (Suc counter)"
  by (subst whileUsed.simps) simp

lemma whileUsed_least_aux:
  "uniqueName = base @ numberToString c \<Longrightarrow> counter = Suc c \<Longrightarrow>
     \<exists>k\<ge>c. whileUsed usedNames base uniqueName counter = base @ numberToString k \<and>
       (\<forall>j. c \<le> j \<and> j < k \<longrightarrow> base @ numberToString j \<in> set usedNames)"
proof (induction usedNames base uniqueName counter arbitrary: c rule: whileUsed.induct)
  case (1 usedNames base uniqueName counter)
  show ?case
  proof (cases "uniqueName \<in> set usedNames")
    case True
    have "\<exists>k\<ge>counter.
        whileUsed usedNames base (base @ numberToString counter) (counter + 1)
          = base @ numberToString k \<and>
        (\<forall>j. counter \<le> j \<and> j < k \<longrightarrow> base @ numberToString j \<in> set usedNames)"
      using "1.IH" [OF True refl] by simp
    with "1.prems"
    obtain k where k: "k \<ge> Suc c"
      "whileUsed usedNames base (base @ numberToString (Suc c)) (Suc (Suc c))
         = base @ numberToString k"
      "\<forall>j. Suc c \<le> j \<and> j < k \<longrightarrow> base @ numberToString j \<in> set usedNames"
      by auto
    have "\<forall>j. c \<le> j \<and> j < k \<longrightarrow> base @ numberToString j \<in> set usedNames"
    proof (intro allI impI)
      fix j assume j: "c \<le> j \<and> j < k"
      show "base @ numberToString j \<in> set usedNames"
      proof (cases "j = c")
        case True
        with \<open>uniqueName \<in> set usedNames\<close> "1.prems" show ?thesis by simp
      next
        case False
        with j k(3) show ?thesis by (simp add: Suc_le_eq)
      qed
    qed
    moreover have "whileUsed usedNames base uniqueName counter = base @ numberToString k"
      using True k(2) "1.prems" by (simp add: whileUsed_step)
    ultimately show ?thesis
      using k(1) by (intro exI [of _ k]) simp
  next
    case False
    then show ?thesis
      using "1.prems" by (intro exI [of _ c]) (auto simp: whileUsed_fresh)
  qed
qed

lemma whileUsed_least:
  assumes "base \<in> set usedNames"
  shows "\<exists>k\<ge>1. whileUsed usedNames base base 1 = base @ numberToString k \<and>
           (\<forall>j. 1 \<le> j \<and> j < k \<longrightarrow> base @ numberToString j \<in> set usedNames)"
proof -
  have "whileUsed usedNames base base 1 =
      whileUsed usedNames base (base @ numberToString 1) (Suc 1)"
    using assms by (simp add: whileUsed_step)
  then show ?thesis
    using whileUsed_least_aux [of "base @ numberToString 1" base 1 "Suc 1" usedNames]
    by simp
qed

lemma uniquifyFrom_length: "length (uniquifyFrom usedNames es) = length es"
  by (induction es arbitrary: usedNames) (simp_all add: Let_def)

lemma uniquifyFrom_frame:
  "i < length es \<Longrightarrow>
     uniquifyFrom usedNames es ! i =
       (es ! i)\<lparr>propertyName := propertyName (uniquifyFrom usedNames es ! i)\<rparr>"
proof (induction es arbitrary: usedNames i)
  case Nil
  then show ?case by simp
next
  case (Cons e es)
  then show ?case by (cases i) (simp_all add: Let_def)
qed

lemma uniquifyFrom_distinct:
  "distinct (map propertyName (uniquifyFrom usedNames es)) \<and>
     set (map propertyName (uniquifyFrom usedNames es)) \<inter> set usedNames = {}"
proof (induction es arbitrary: usedNames)
  case Nil
  then show ?case by simp
next
  case (Cons e es)
  define u where "u = whileUsed usedNames (propertyName e) (propertyName e) 1"
  have fresh: "u \<notin> set usedNames"
    unfolding u_def by (rule whileUsed_unused)
  from Cons.IH [of "List.insert u usedNames"]
  have d: "distinct (map propertyName (uniquifyFrom (List.insert u usedNames) es))"
    and i: "set (map propertyName (uniquifyFrom (List.insert u usedNames) es))
        \<inter> insert u (set usedNames) = {}"
    by simp_all
  have "uniquifyFrom usedNames (e # es) =
      e\<lparr>propertyName := u\<rparr> # uniquifyFrom (List.insert u usedNames) es"
    by (simp add: u_def Let_def)
  with d i fresh show ?case by auto
qed

lemma uniquifyFrom_assigned:
  "i < length es \<Longrightarrow>
     (propertyName (es ! i) \<notin>
          set usedNames \<union> set (map propertyName (take i (uniquifyFrom usedNames es))) \<longrightarrow>
        propertyName (uniquifyFrom usedNames es ! i) = propertyName (es ! i)) \<and>
     (propertyName (es ! i) \<in>
          set usedNames \<union> set (map propertyName (take i (uniquifyFrom usedNames es))) \<longrightarrow>
        (\<exists>k\<ge>1. propertyName (uniquifyFrom usedNames es ! i)
                  = propertyName (es ! i) @ numberToString k \<and>
           (\<forall>j. 1 \<le> j \<and> j < k \<longrightarrow> propertyName (es ! i) @ numberToString j \<in>
              set usedNames \<union> set (map propertyName (take i (uniquifyFrom usedNames es))))))"
proof (induction es arbitrary: usedNames i)
  case Nil
  then show ?case by simp
next
  case (Cons e es)
  define u where "u = whileUsed usedNames (propertyName e) (propertyName e) 1"
  have unf: "uniquifyFrom usedNames (e # es) =
      e\<lparr>propertyName := u\<rparr> # uniquifyFrom (List.insert u usedNames) es"
    by (simp add: u_def Let_def)
  show ?case
  proof (cases i)
    case 0
    have a: "propertyName e \<notin> set usedNames \<Longrightarrow> u = propertyName e"
      unfolding u_def by (rule whileUsed_fresh)
    have b: "propertyName e \<in> set usedNames \<Longrightarrow>
        \<exists>k\<ge>1. u = propertyName e @ numberToString k \<and>
          (\<forall>j. 1 \<le> j \<and> j < k \<longrightarrow> propertyName e @ numberToString j \<in> set usedNames)"
      unfolding u_def by (rule whileUsed_least)
    show ?thesis
      using a b by (simp add: 0 unf del: uniquifyFrom.simps)
  next
    case (Suc i')
    with Cons.prems have "i' < length es" by simp
    from Cons.IH [OF this, of "List.insert u usedNames"] show ?thesis
      by (simp add: unf Suc Un_commute Un_left_commute insert_commute
          del: uniquifyFrom.simps)
  qed
qed

section \<open>What uniquifyPropertyNames leaves alone\<close>

lemma numberToString_1: "numberToString 1 = ''1''"
  by code_simp

lemma numberToString_Suc_0: "numberToString (Suc 0) = ''1''"
  using numberToString_1 by simp

lemma uniquifyFrom_blank:
  "map (propertyName_update (\<lambda>_. [])) (uniquifyFrom usedNames es)
     = map (propertyName_update (\<lambda>_. [])) es"
  by (induction es arbitrary: usedNames) (simp_all add: Let_def)

lemma uniquify_twice:
  "uniquifyPropertyNames [e, e] = [e, e\<lparr>propertyName := propertyName e @ ''1''\<rparr>]"
proof -
  have first: "whileUsed [] (propertyName e) (propertyName e) 1 = propertyName e"
    by (simp add: whileUsed_fresh)
  have "whileUsed [propertyName e] (propertyName e) (propertyName e) 1
      = whileUsed [propertyName e] (propertyName e) (propertyName e @ numberToString 1) (Suc 1)"
    by (simp add: whileUsed_step)
  also have "\<dots> = propertyName e @ numberToString 1"
    by (rule whileUsed_fresh) (simp add: numberToString_nonempty)
  finally have second:
    "whileUsed [propertyName e] (propertyName e) (propertyName e) 1 = propertyName e @ ''1''"
    by (simp add: numberToString_Suc_0)
  show ?thesis
    using first second by (simp add: uniquifyPropertyNames_def Let_def)
qed

text \<open>
  Claim C9. \<^verbatim>\<open>uniquifyPropertyNames\<close> changes the field \<^verbatim>\<open>propertyName\<close> and nothing else:
  with the property names blanked the output list is the input list, so the lengths agree
  and, position by position, so does every other field. The field \<^verbatim>\<open>name\<close> is not updated:
  the second of two equal elements keeps its name while its property name gets the suffix 1.
\<close>

theorem uniquifyPropertyNames_frame:
  "map (propertyName_update (\<lambda>_. [])) (uniquifyPropertyNames es)
     = map (propertyName_update (\<lambda>_. [])) es \<and>
   length (uniquifyPropertyNames es) = length es \<and>
   map name (uniquifyPropertyNames es) = map name es \<and>
   map type (uniquifyPropertyNames es) = map type es \<and>
   map elSelector (uniquifyPropertyNames es) = map elSelector es \<and>
   map tagName (uniquifyPropertyNames es) = map tagName es \<and>
   map textContent (uniquifyPropertyNames es) = map textContent es \<and>
   map elId (uniquifyPropertyNames es) = map elId es \<and>
   map className (uniquifyPropertyNames es) = map className es \<and>
   map role (uniquifyPropertyNames es) = map role es \<and>
   map nameAttr (uniquifyPropertyNames es) = map nameAttr es \<and>
   map placeholder (uniquifyPropertyNames es) = map placeholder es \<and>
   map ariaLabel (uniquifyPropertyNames es) = map ariaLabel es \<and>
   map ariaLabelledby (uniquifyPropertyNames es) = map ariaLabelledby es \<and>
   map attributes (uniquifyPropertyNames es) = map attributes es \<and>
   map elKey (uniquifyPropertyNames es) = map elKey es \<and>
   (let out = uniquifyPropertyNames [e, e]
    in name (out ! 1) = name e \<and> propertyName (out ! 1) = propertyName e @ ''1'')"
proof -
  let ?blank = "propertyName_update (\<lambda>_. [])"
  have blank: "map ?blank (uniquifyPropertyNames es) = map ?blank es"
    unfolding uniquifyPropertyNames_def by (rule uniquifyFrom_blank)
  have field: "map f (uniquifyPropertyNames es) = map f es"
    if "\<And>x. f (?blank x) = f x" for f :: "AccessibleElement \<Rightarrow> 'b"
  proof -
    have "map f (uniquifyPropertyNames es) = map f (map ?blank (uniquifyPropertyNames es))"
      by (simp add: that)
    also have "\<dots> = map f (map ?blank es)"
      by (simp only: blank)
    also have "\<dots> = map f es"
      by (simp add: that)
    finally show ?thesis .
  qed
  have len: "length (uniquifyPropertyNames es) = length es"
    unfolding uniquifyPropertyNames_def by (rule uniquifyFrom_length)
  show ?thesis
    by (simp add: blank len field uniquify_twice Let_def)
qed

section \<open>The runtime visibility stage\<close>

lemma visibleLoop_result:
  "snd (visibleLoop page i es visibleElements) =
     visibleElements @
       map snd (filter (\<lambda>(j, e). case isVisible page j (elSelector e) of
                              Inl err \<Rightarrow> True | Inr visible \<Rightarrow> visible) (enumerate i es))"
proof (induction es arbitrary: i visibleElements)
  case Nil
  then show ?case by simp
next
  case (Cons e es)
  show ?case
    by (cases "isVisible page i (elSelector e)")
      (simp_all add: Cons.IH case_prod_unfold)
qed

text \<open>
  Claim C8. \<^verbatim>\<open>VisibilityFilter.filterAsync\<close>: with the stage disabled the list comes back
  unchanged. With the stage enabled the result is the input list, in its order, without the
  elements whose visibility check completes and reports not visible; an element whose check
  raises an error is kept, as is one reported visible.
\<close>

theorem VisibilityFilter_filterAsync_result:
  "snd (VisibilityFilter_filterAsync False page es) = es \<and>
   snd (VisibilityFilter_filterAsync True page es) =
     map snd (filter (\<lambda>(i, e). case isVisible page i (elSelector e) of
                              Inl err \<Rightarrow> True | Inr visible \<Rightarrow> visible) (enumerate 0 es)) \<and>
   subseq (snd (VisibilityFilter_filterAsync True page es)) es"
proof -
  have "subseq (map snd (filter P (enumerate 0 es))) (map snd (enumerate 0 es))"
    for P :: "nat \<times> AccessibleElement \<Rightarrow> bool"
    by (intro subseq_map subseq_filter_left)
  then show ?thesis
    by (simp add: VisibilityFilter_filterAsync_def visibleLoop_result)
qed

section \<open>Property names are unique\<close>

lemma extractInternal_distinct:
  "snd (extractAccessibleElementsInternal urlHostname page config) = Inr out \<Longrightarrow>
     distinct (map propertyName out)"
  by (auto simp: extractAccessibleElementsInternal_def Let_def uniquifyPropertyNames_def
      uniquifyFrom_distinct split: if_splits sum.splits prod.splits)

lemma extract_distinct:
  "snd (extractAccessibleElements urlHostname page config) = Inr out \<Longrightarrow>
     distinct (map propertyName out)"
  using extractInternal_distinct [of urlHostname page config out]
  by (auto simp: extractAccessibleElements_def executeWithTimeout_def
      split: if_splits sum.splits prod.splits)

lemma threeButtonElements_names:
  "map propertyName threeButtonElements = [''a'', ''a'', ''a1'']"
  by code_simp

lemma threeButtonElements_uniquified:
  "map propertyName (uniquifyPropertyNames threeButtonElements) = [''a'', ''a1'', ''a11'']"
  by code_simp

lemma threeButtons_extracted:
  "snd (extractAccessibleElements neverParses (pageOf threeButtons) emptyConfig)
     = Inr (uniquifyPropertyNames threeButtonElements)"
  by code_simp

text \<open>
  Claim C1 as stated fails where it says that the first element carrying a raw name keeps the
  bare form. Three buttons with the raw names \<open>a\<close>, \<open>a\<close>, \<open>a1\<close>: the second becomes \<open>a1\<close>, so
  the third, the first to carry \<open>a1\<close>, finds its name taken and becomes \<open>a11\<close>.
\<close>

theorem uniquifyPropertyNames_first_occurrence_counterexample:
  "map propertyName threeButtonElements = [''a'', ''a'', ''a1''] \<and>
   map propertyName (uniquifyPropertyNames threeButtonElements) = [''a'', ''a1'', ''a11'']"
  by (simp add: threeButtonElements_names threeButtonElements_uniquified)

text \<open>
  Claim C1, amended. \<^verbatim>\<open>uniquifyPropertyNames\<close> returns a list of the same length and order
  (only the property names differ) whose property names are pairwise distinct. An element
  keeps its raw name when no earlier element of the output has that name; otherwise it gets
  the raw name with the smallest positive integer suffix such that every smaller suffix is the
  name of an earlier output element. Consequently \<^verbatim>\<open>extractAccessibleElements\<close>, when it
  returns, never returns two elements with equal property names.
\<close>

theorem uniquifyPropertyNames_distinct:
  "(let out = uniquifyPropertyNames es in
      length out = length es \<and>
      map (propertyName_update (\<lambda>_. [])) out = map (propertyName_update (\<lambda>_. [])) es \<and>
      distinct (map propertyName out) \<and>
      (\<forall>i<length es.
         let raw = propertyName (es ! i);
             earlier = set (map propertyName (take i out))
         in (raw \<notin> earlier \<longrightarrow> propertyName (out ! i) = raw) \<and>
            (raw \<in> earlier \<longrightarrow>
               (\<exists>k\<ge>1. propertyName (out ! i) = raw @ numberToString k \<and>
                  (\<forall>j. 1 \<le> j \<and> j < k \<longrightarrow> raw @ numberToString j \<in> earlier))))) \<and>
   (\<forall>out. snd (extractAccessibleElements urlHostname page config) = Inr out \<longrightarrow>
      distinct (map propertyName out))"
proof -
  have len: "length (uniquifyPropertyNames es) = length es"
    unfolding uniquifyPropertyNames_def by (rule uniquifyFrom_length)
  have blank: "map (propertyName_update (\<lambda>_. [])) (uniquifyPropertyNames es)
      = map (propertyName_update (\<lambda>_. [])) es"
    unfolding uniquifyPropertyNames_def by (rule uniquifyFrom_blank)
  have dist: "distinct (map propertyName (uniquifyPropertyNames es))"
    unfolding uniquifyPropertyNames_def using uniquifyFrom_distinct [of "[]" es] by simp
  have assigned: "\<forall>i<length es.
      let raw = propertyName (es ! i);
          earlier = set (map propertyName (take i (uniquifyPropertyNames es)))
      in (raw \<notin> earlier \<longrightarrow> propertyName (uniquifyPropertyNames es ! i) = raw) \<and>
         (raw \<in> earlier \<longrightarrow>
            (\<exists>k\<ge>1. propertyName (uniquifyPropertyNames es ! i) = raw @ numberToString k \<and>
               (\<forall>j. 1 \<le> j \<and> j < k \<longrightarrow> raw @ numberToString j \<in> earlier)))"
  proof (intro allI impI)
    fix i assume "i < length es"
    from uniquifyFrom_assigned [OF this, of "[]"] show
      "let raw = propertyName (es ! i);
           earlier = set (map propertyName (take i (uniquifyPropertyNames es)))
       in (raw \<notin> earlier \<longrightarrow> propertyName (uniquifyPropertyNames es ! i) = raw) \<and>
          (raw \<in> earlier \<longrightarrow>
             (\<exists>k\<ge>1. propertyName (uniquifyPropertyNames es ! i) = raw @ numberToString k \<and>
                (\<forall>j. 1 \<le> j \<and> j < k \<longrightarrow> raw @ numberToString j \<in> earlier)))"
      unfolding uniquifyPropertyNames_def Let_def by simp
  qed
  have pipeline: "\<forall>out. snd (extractAccessibleElements urlHostname page config) = Inr out \<longrightarrow>
      distinct (map propertyName out)"
    by (simp add: extract_distinct)
  show ?thesis
    unfolding Let_def using len blank dist assigned pipeline unfolding Let_def by blast
qed

text \<open>The three buttons, through the whole extraction with the default configuration.\<close>

theorem uniquifyPropertyNames_distinct_witness:
  "distinct (map propertyName (uniquifyPropertyNames threeButtonElements)) \<and>
   2 < length threeButtonElements \<and>
   propertyName (threeButtonElements ! 2)
     \<in> set (map propertyName (take 2 (uniquifyPropertyNames threeButtonElements))) \<and>
   (\<exists>k\<ge>1. propertyName (uniquifyPropertyNames threeButtonElements ! 2)
              = propertyName (threeButtonElements ! 2) @ numberToString k) \<and>
   snd (extractAccessibleElements neverParses (pageOf threeButtons) emptyConfig)
     = Inr (uniquifyPropertyNames threeButtonElements)"
proof -
  note inst = uniquifyPropertyNames_distinct
    [of threeButtonElements neverParses "pageOf threeButtons" emptyConfig, unfolded Let_def]
  have len: "2 < length threeButtonElements"
    using arg_cong [OF threeButtonElements_names, of length] by simp
  have raw: "propertyName (threeButtonElements ! 2) = ''a1''"
    using arg_cong [OF threeButtonElements_names, of "\<lambda>xs. xs ! 2"] len by simp
  have earlier: "map propertyName (take 2 (uniquifyPropertyNames threeButtonElements))
      = [''a'', ''a1'']"
    using arg_cong [OF threeButtonElements_uniquified, of "take 2"]
    by (simp add: take_map)
  have used: "propertyName (threeButtonElements ! 2)
      \<in> set (map propertyName (take 2 (uniquifyPropertyNames threeButtonElements)))"
    by (simp only: raw earlier) simp
  from inst len used
  have "\<exists>k\<ge>1. propertyName (uniquifyPropertyNames threeButtonElements ! 2)
              = propertyName (threeButtonElements ! 2) @ numberToString k"
    by blast
  with inst len used threeButtons_extracted show ?thesis
    by blast
qed

section \<open>The e-mail field, end to end\<close>

lemma email_type: "getElementType ''input'' [] ''email'' = ''email''"
  by code_simp

lemma email_label_escaped: "escapeString ''Email Address'' = ''Email Address''"
  by code_simp

lemma email_label_key: "sanitizeKey ''Email Address'' = ''emailaddress''"
  by code_simp

lemma email_label_camel: "toCamelCase ''Email Address'' = ''emailAddress''"
  by code_simp

lemma email_selector:
  "generateSelector urlHostname ''input'' [] text' ''Email Address'' ph attrs index
   = \<lparr>selector = ''getByLabel('Email Address')'', key = ''emailaddress''\<rparr>"
  by (simp add: generateSelector_def roleBranch_def fieldBranch_def quoted_def
      email_label_escaped email_label_key)

lemma email_name:
  "generatePropertyName urlHostname elementType tag text' ''Email Address'' ph nm ident
     attrs index = ''emailAddress''"
  by (simp add: generatePropertyName_def orElse_def email_label_camel)

lemma email_info:
  "extractElementInfo urlHostname emailInput index =
     \<lparr>name = ''emailAddress'', type = ''email'',
      elSelector = \<lparr>selector = ''getByLabel('Email Address')'', key = ''emailaddress''\<rparr>,
      tagName = ''input'', textContent = [], elId = [], className = [], role = [],
      nameAttr = [], placeholder = [], ariaLabel = ''Email Address'', ariaLabelledby = [],
      attributes = [(''type'', ''email''), (''aria-label'', ''Email Address'')],
      propertyName = ''emailAddress'', elKey = ''emailaddress''\<rparr>"
  by code_simp

lemma email_extracted:
  "snd (extractAccessibleElements neverParses (pageOf [emailInput]) emptyConfig)
     = Inr [extractElementInfo neverParses emailInput 0]"
  by code_simp

text \<open>
  Claim C7. For an \<^verbatim>\<open>input\<close> with empty role, type \<^verbatim>\<open>email\<close> and aria-label
  \<^verbatim>\<open>Email Address\<close>: \<^verbatim>\<open>getElementType\<close> yields \<^verbatim>\<open>email\<close>; \<^verbatim>\<open>generateSelector\<close> takes the label
  branch, whatever the text, placeholder, other attributes and index;
  \<^verbatim>\<open>generatePropertyName\<close> camel-cases the aria-label to \<^verbatim>\<open>emailAddress\<close>, whatever the other
  naming inputs. The record built for the element has these three values, and a page with
  this one element, extracted with the default configuration, yields exactly that record.
\<close>

theorem email_input_scenario:
  "getElementType ''input'' [] ''email'' = ''email'' \<and>
   generateSelector urlHostname ''input'' [] text' ''Email Address'' ph attrs index
     = \<lparr>selector = ''getByLabel('Email Address')'', key = ''emailaddress''\<rparr> \<and>
   generatePropertyName urlHostname elementType tag text' ''Email Address'' ph nm ident
     attrs index = ''emailAddress'' \<and>
   type (extractElementInfo urlHostname emailInput index) = ''email'' \<and>
   selector (elSelector (extractElementInfo urlHostname emailInput index))
     = ''getByLabel('Email Address')'' \<and>
   propertyName (extractElementInfo urlHostname emailInput index) = ''emailAddress'' \<and>
   snd (extractAccessibleElements neverParses (pageOf [emailInput]) emptyConfig)
     = Inr [extractElementInfo neverParses emailInput 0]"
  by (simp add: email_type email_selector email_name email_info email_extracted)

section \<open>Validation of the configuration\<close>

lemma validateConfig_zero: "validateConfig zeroLengthConfig = []"
  by (simp add: validateConfig_def zeroLengthConfig_def emptyConfig_def)

lemma extract_valid_starts:
  "validateConfig config = [] \<Longrightarrow>
     take 2 (fst (extractAccessibleElements urlHostname page config))
       = [WaitForLoadState, LocatorAll (buildSelectorString (mergeConfig config))]"
  by (simp add: extractAccessibleElements_def extractAccessibleElementsInternal_def Let_def
      split: sum.splits prod.splits)

lemma zeroLength_extracted:
  "snd (extractAccessibleElements neverParses (pageOf threeButtons) zeroLengthConfig)
     = Inr (uniquifyPropertyNames threeButtonElements)"
  by code_simp

text \<open>
  Claim C3 does not hold for \<^verbatim>\<open>maxTextLength\<close> exactly 0, which the claim names: the guard
  \<^verbatim>\<open>config.maxTextLength && config.maxTextLength < 1\<close> is falsy for 0, so \<^verbatim>\<open>validateConfig\<close>
  reports nothing although its own message says the value must be at least 1. The call goes
  on to wait for the page and to query it, on every page, and returns elements.
\<close>

theorem maxTextLength_zero_accepted:
  "maxTextLength zeroLengthConfig = Some 0 \<and>
   validateConfig zeroLengthConfig = [] \<and>
   take 2 (fst (extractAccessibleElements urlHostname page zeroLengthConfig))
     = [WaitForLoadState, LocatorAll (buildSelectorString (mergeConfig zeroLengthConfig))] \<and>
   snd (extractAccessibleElements neverParses (pageOf threeButtons) zeroLengthConfig)
     = Inr (uniquifyPropertyNames threeButtonElements)"
  by (simp add: validateConfig_zero extract_valid_starts zeroLength_extracted)
    (simp add: zeroLengthConfig_def)

text \<open>
  The rest of the claim holds: a \<^verbatim>\<open>maxTextLength\<close> below 1 other than 0, or an explicit empty
  priority list, rejects the call with no event at all.
\<close>

lemma invalid_config_rejected:
  assumes "(\<exists>n. maxTextLength config = Some n \<and> n < 1 \<and> n \<noteq> 0) \<or>
           selectorPriorities config = Some []"
  shows "\<exists>message. extractAccessibleElements urlHostname page config
           = ([], Inl (Error (''Element extraction failed: Configuration validation failed: ''
                 @ message)))"
proof -
  have "list_ex (\<lambda>r. vType r = ''error'') (validateConfig config)"
    using assms by (auto simp: validateConfig_def)
  then show ?thesis
    by (simp add: extractAccessibleElements_def extractAccessibleElementsInternal_def Let_def
        executeWithTimeout_def)
qed

section \<open>The hidden-element filter\<close>

lemma hiddenDiv_attr:
  "map_of (attributes (extractElementInfo neverParses hiddenDiv 0)) ''hidden'' = Some ''hidden''"
  by code_simp

lemma hiddenDiv_kept:
  "HiddenElementFilter_filter [extractElementInfo neverParses hiddenDiv 0]
     = [extractElementInfo neverParses hiddenDiv 0]"
  by code_simp

lemma hiddenDiv_extracted:
  "snd (extractAccessibleElements neverParses (pageOf [hiddenDiv]) emptyConfig)
     = Inr [extractElementInfo neverParses hiddenDiv 0]"
  by code_simp

text \<open>
  Claim C4 does not hold for a \<^verbatim>\<open>hidden\<close> attribute with a value: the filter tests
  \<^verbatim>\<open>attributes['hidden'] === ''\<close>, so \<^verbatim>\<open><div hidden="hidden" id="secret">Secret</div>\<close> passes
  the filter and is part of the extraction's result.
\<close>

theorem hidden_attribute_with_value_kept:
  "map_of (attributes (extractElementInfo neverParses hiddenDiv 0)) ''hidden'' = Some ''hidden'' \<and>
   HiddenElementFilter_filter [extractElementInfo neverParses hiddenDiv 0]
     = [extractElementInfo neverParses hiddenDiv 0] \<and>
   snd (extractAccessibleElements neverParses (pageOf [hiddenDiv]) emptyConfig)
     = Inr [extractElementInfo neverParses hiddenDiv 0]"
  by (simp only: hiddenDiv_attr hiddenDiv_kept hiddenDiv_extracted)

text \<open>
  The rest of the claim holds: an empty \<^verbatim>\<open>hidden\<close> attribute and \<^verbatim>\<open>aria-hidden="true"\<close> drop
  the element, and the elements kept are the ones no condition excludes, in their order.
\<close>

lemma hidden_empty_dropped:
  "map_of (attributes e) ''hidden'' = Some [] \<Longrightarrow> e \<notin> set (HiddenElementFilter_filter es)"
  by (simp add: HiddenElementFilter_filter_def hiddenKeeps_def)

lemma aria_hidden_dropped:
  "map_of (attributes e) ''aria-hidden'' = Some ''true'' \<Longrightarrow>
     e \<notin> set (HiddenElementFilter_filter es)"
  by (simp add: HiddenElementFilter_filter_def hiddenKeeps_def)

lemma HiddenElementFilter_keeps_in_order:
  "subseq (HiddenElementFilter_filter es) es \<and>
   set (HiddenElementFilter_filter es) = {e \<in> set es. hiddenKeeps e}"
  by (simp add: HiddenElementFilter_filter_def)

section \<open>Escaping in the selector synthesizer\<close>

lemma quote_escaped: "escapeString ''it's'' = [CHR ''i'', CHR ''t'', CHR 0x5C, CHR 0x27, CHR ''s'']"
  by code_simp

lemma testid_unescaped:
  "generateSelector urlHostname ''div'' [] [] [] [] [(''data-testid'', ''it's'')] index
     = \<lparr>selector = ''getByTestId('it's')'', key = ''its''\<rparr>"
  by code_simp

lemma id_unescaped:
  "generateSelector urlHostname ''div'' [] [] [] [] [(''id'', ''it's'')] index
     = \<lparr>selector = ''locator('#it's')'', key = ''its''\<rparr>"
  by code_simp

lemma name_unescaped:
  \<open>generateSelector urlHostname ''div'' [] [] [] [] [(''name'', ''it's'')] index
     = \<lparr>selector = ''locator('[name="it's"]')'', key = ''its''\<rparr>\<close>
  by code_simp

lemma href_unescaped:
  \<open>selector (generateSelector urlHostname ''a'' [] [] [] [] [(''href'', ''/it's'')] index)
     = ''locator('a[href="/it's"]')''\<close>
  by code_simp

lemma quoteTestId_info:
  "elSelector (extractElementInfo urlHostname quoteTestId index)
     = \<lparr>selector = ''getByTestId('it's')'', key = ''its''\<rparr>"
  by code_simp

lemma text_escaped:
  "selector (generateSelector urlHostname ''div'' [] ''it's'' [] [] [] index)
     = ''getByText('' @ quoted (escapeString ''it's'') @ '')''"
  by code_simp

text \<open>
  Claim C5 does not hold for the \<^verbatim>\<open>data-testid\<close>, \<^verbatim>\<open>id\<close>, \<^verbatim>\<open>name\<close> and \<^verbatim>\<open>href\<close> branches, which
  the claim names: with the value \<^verbatim>\<open>it's\<close> the text branch interpolates
  \<^verbatim>\<open>escapeString\<close> of it, and these four branches interpolate it as it is.
\<close>

theorem attribute_values_not_escaped:
  \<open>escapeString ''it's'' \<noteq> ''it's'' \<and>
   selector (generateSelector urlHostname ''div'' [] ''it's'' [] [] [] index)
     = ''getByText('' @ quoted (escapeString ''it's'') @ '')'' \<and>
   selector (generateSelector urlHostname ''div'' [] [] [] [] [(''data-testid'', ''it's'')] index)
     = ''getByTestId('' @ quoted ''it's'' @ '')'' \<and>
   selector (generateSelector urlHostname ''div'' [] [] [] [] [(''id'', ''it's'')] index)
     = ''locator('' @ quoted ''#it's'' @ '')'' \<and>
   selector (generateSelector urlHostname ''div'' [] [] [] [] [(''name'', ''it's'')] index)
     = ''locator('' @ quoted (''[name='' @ dquoted ''it's'' @ '']'') @ '')'' \<and>
   selector (generateSelector urlHostname ''a'' [] [] [] [] [(''href'', ''/it's'')] index)
     = ''locator('' @ quoted (''a[href='' @ dquoted ''/it's'' @ '']'') @ '')'' \<and>
   selector (elSelector (extractElementInfo urlHostname quoteTestId index))
     = ''getByTestId('it's')''\<close>
  by (simp add: quote_escaped testid_unescaped id_unescaped name_unescaped href_unescaped
      quoteTestId_info text_escaped quoted_def dquoted_def)

section \<open>The duplicate filter\<close>

lemma firstPerSelector_seen:
  "set seen = set seen' \<Longrightarrow> firstPerSelector seen es = firstPerSelector seen' es"
proof (induction es arbitrary: seen seen')
  case Nil
  then show ?case by simp
next
  case (Cons e es)
  from Cons.prems have "set (selectorOf e # seen) = set (selectorOf e # seen')" by simp
  from Cons.IH [OF this] Cons.IH [OF Cons.prems] Cons.prems show ?case by simp
qed

lemma firstPerSelector_subseq: "subseq (firstPerSelector seen es) es"
  by (induction es arbitrary: seen) auto

lemma firstPerSelector_selectors:
  "selectorOf ` set (firstPerSelector seen es) = selectorOf ` set es - set seen"
  by (induction es arbitrary: seen) auto

lemma firstPerSelector_distinct: "distinct (map selectorOf (firstPerSelector seen es))"
proof (induction es arbitrary: seen)
  case Nil
  then show ?case by simp
next
  case (Cons e es)
  have "selectorOf e \<notin> selectorOf ` set (firstPerSelector (selectorOf e # seen) es)"
    by (simp add: firstPerSelector_selectors)
  with Cons.IH show ?case by simp
qed

lemma firstPerSelector_first:
  "e \<in> set (firstPerSelector seen es) \<Longrightarrow> find (\<lambda>x. selectorOf x = selectorOf e) es = Some e"
proof (induction es arbitrary: seen)
  case Nil
  then show ?case by simp
next
  case (Cons x xs)
  show ?case
  proof (cases "selectorOf x \<in> set seen")
    case True
    with Cons.prems have mem: "e \<in> set (firstPerSelector seen xs)" by simp
    then have "selectorOf e \<in> selectorOf ` set (firstPerSelector seen xs)" by simp
    then have "selectorOf e \<notin> set seen" by (simp add: firstPerSelector_selectors)
    with True have "selectorOf x \<noteq> selectorOf e" by auto
    with Cons.IH [OF mem] show ?thesis by simp
  next
    case False
    show ?thesis
    proof (cases "e = x")
      case True
      then show ?thesis by simp
    next
      case ne: False
      with False Cons.prems have mem: "e \<in> set (firstPerSelector (selectorOf x # seen) xs)" by simp
      then have "selectorOf e \<in> selectorOf ` set (firstPerSelector (selectorOf x # seen) xs)" by simp
      then have "selectorOf x \<noteq> selectorOf e" by (auto simp: firstPerSelector_selectors)
      with Cons.IH [OF mem] show ?thesis by simp
    qed
  qed
qed

lemma heads_Nil: "heads [] = []"
  by (simp add: heads_def List.map_filter_def)

lemma heads_snoc: "heads (groups @ [(k, [e])]) = heads groups @ [e]"
  by (simp add: heads_def List.map_filter_def firstOfGroup_def)

lemma heads_update:
  "map_of groups k = Some g \<Longrightarrow> g \<noteq> [] \<Longrightarrow>
     heads (AList.update k (g @ [e]) groups) = heads groups"
proof (induction groups)
  case Nil
  then show ?case by simp
next
  case (Cons p groups)
  obtain k' g' where p: "p = (k', g')" by (cases p)
  show ?case
  proof (cases "k' = k")
    case True
    with Cons.prems p have "g' = g" by simp
    with True p Cons.prems(2) show ?thesis
      by (cases g) (simp_all add: heads_def List.map_filter_def firstOfGroup_def)
  next
    case False
    with Cons.prems p have "map_of groups k = Some g" by simp
    from Cons.IH [OF this Cons.prems(2)] False p show ?thesis
      by (simp add: heads_def List.map_filter_def)
  qed
qed

lemma update_nonempty_groups:
  "\<forall>g\<in>set (map snd groups). g \<noteq> [] \<Longrightarrow>
     \<forall>g\<in>set (map snd (AList.update k (g0 @ [e]) groups)). g \<noteq> []"
  by (induction groups) auto

lemma groupReduce_first:
  assumes "\<forall>e\<in>set es. selectorOf e \<notin> set objectPrototypeKeys"
    and "\<forall>g\<in>set (map snd groups). g \<noteq> []"
  shows "\<exists>groups'. groupReduce selectorOf groups es = Inr groups' \<and>
           map fst groups' = map fst groups @ map selectorOf (firstPerSelector (map fst groups) es) \<and>
           heads groups' = heads groups @ firstPerSelector (map fst groups) es"
  using assms
proof (induction es arbitrary: groups)
  case Nil
  then show ?case by simp
next
  case (Cons e es)
  from Cons.prems(1) have proto: "selectorOf e \<notin> set objectPrototypeKeys"
    and rest: "\<forall>e\<in>set es. selectorOf e \<notin> set objectPrototypeKeys"
    by simp_all
  show ?case
  proof (cases "map_of groups (selectorOf e)")
    case None
    then have new: "selectorOf e \<notin> set (map fst groups)"
      by (simp add: map_of_eq_None_iff)
    have step: "groupStep selectorOf groups e = Inr (groups @ [(selectorOf e, [e])])"
      using None proto by (simp add: groupStep_def)
    have ne: "\<forall>g\<in>set (map snd (groups @ [(selectorOf e, [e])])). g \<noteq> []"
      using Cons.prems(2) by auto
    from Cons.IH [OF rest ne] obtain groups' where g':
      "groupReduce selectorOf (groups @ [(selectorOf e, [e])]) es = Inr groups'"
      "map fst groups' = map fst (groups @ [(selectorOf e, [e])])
         @ map selectorOf (firstPerSelector (map fst (groups @ [(selectorOf e, [e])])) es)"
      "heads groups' = heads (groups @ [(selectorOf e, [e])])
         @ firstPerSelector (map fst (groups @ [(selectorOf e, [e])])) es"
      by blast
    have seen: "firstPerSelector (map fst (groups @ [(selectorOf e, [e])])) es
        = firstPerSelector (selectorOf e # map fst groups) es"
      by (rule firstPerSelector_seen) auto
    show ?thesis
      using g' new unfolding seen by (intro exI [of _ groups']) (simp add: step heads_snoc)
  next
    case (Some g)
    then have old: "selectorOf e \<in> set (map fst groups)"
      by (metis map_of_eq_None_iff option.distinct(1) set_map)
    from Some have "g \<in> set (map snd groups)"
      by (metis map_of_SomeD image_eqI set_map snd_conv)
    with Cons.prems(2) have gne: "g \<noteq> []" by blast
    have step: "groupStep selectorOf groups e = Inr (AList.update (selectorOf e) (g @ [e]) groups)"
      using Some by (simp add: groupStep_def)
    have ne: "\<forall>g\<in>set (map snd (AList.update (selectorOf e) (g @ [e]) groups)). g \<noteq> []"
      using Cons.prems(2) by (rule update_nonempty_groups)
    have keys: "map fst (AList.update (selectorOf e) (g @ [e]) groups) = map fst groups"
      using old by (simp add: update_keys)
    from Cons.IH [OF rest ne] obtain groups' where g':
      "groupReduce selectorOf (AList.update (selectorOf e) (g @ [e]) groups) es = Inr groups'"
      "map fst groups' = map fst groups @ map selectorOf (firstPerSelector (map fst groups) es)"
      "heads groups' = heads (AList.update (selectorOf e) (g @ [e]) groups)
         @ firstPerSelector (map fst groups) es"
      unfolding keys by blast
    show ?thesis
      using g' old by (intro exI [of _ groups']) (simp add: step heads_update [OF Some gne])
  qed
qed

lemma objectValues_plain:
  assumes "\<forall>k\<in>set (map fst obj). \<not> isArrayIndex k"
  shows "objectValues obj = map snd obj"
proof -
  have "filter hasIndexKey obj = []"
    using assms by (auto simp: filter_empty_conv)
  moreover have "filter hasNamedKey obj = obj"
    using assms by (auto simp: filter_id_conv)
  ultimately show ?thesis
    by (simp add: objectValues_def objectEntries_def sortEntries_def)
qed

lemma DuplicateElementFilter_first:
  assumes "\<forall>e\<in>set es. selectorOf e \<notin> set objectPrototypeKeys \<and> \<not> isArrayIndex (selectorOf e)"
  shows "DuplicateElementFilter_filter es = Inr (firstPerSelector [] es)"
proof -
  from assms have "\<forall>e\<in>set es. selectorOf e \<notin> set objectPrototypeKeys" by blast
  from groupReduce_first [OF this, of "[]"] obtain groups' where g':
    "groupReduce selectorOf [] es = Inr groups'"
    "map fst groups' = map selectorOf (firstPerSelector [] es)"
    "heads groups' = firstPerSelector [] es"
    by (auto simp: heads_Nil)
  have "set (map fst groups') \<subseteq> selectorOf ` set es"
    by (simp add: g'(2) firstPerSelector_selectors)
  with assms have "\<forall>k\<in>set (map fst groups'). \<not> isArrayIndex k"
    by blast
  then have "objectValues groups' = map snd groups'"
    by (rule objectValues_plain)
  with g' show ?thesis
    by (simp add: DuplicateElementFilter_filter_def groupBy_def heads_def)
qed

lemma indexKeys_reordered:
  "DuplicateElementFilter_filter [selectorOnly ''1'', selectorOnly ''0'']
     = Inr [selectorOnly ''0'', selectorOnly ''1'']"
  by code_simp

lemma indexKeys_first_seen:
  "firstPerSelector [] [selectorOnly ''1'', selectorOnly ''0'']
     = [selectorOnly ''1'', selectorOnly ''0'']"
  by code_simp

lemma prototypeKey_throws:
  "DuplicateElementFilter_filter [selectorOnly ''constructor'']
     = Inl (TypeError ''groups[key].push is not a function'')"
  by code_simp

text \<open>
  Claim C6 as stated, for every input list, fails on two kinds of selector expression.
  Expressions that are array indices come out in numeric order, not first-seen order: for
  the selectors \<open>1\<close>, \<open>0\<close> the filter returns \<open>0\<close>, \<open>1\<close>, where the first elements in first-seen
  order are \<open>1\<close>, \<open>0\<close>. An expression that names a property of \<^verbatim>\<open>Object.prototype\<close> makes
  \<^verbatim>\<open>groupBy\<close> throw.
\<close>

theorem DuplicateElementFilter_order_counterexample:
  "DuplicateElementFilter_filter [selectorOnly ''1'', selectorOnly ''0'']
     = Inr [selectorOnly ''0'', selectorOnly ''1''] \<and>
   firstPerSelector [] [selectorOnly ''1'', selectorOnly ''0'']
     = [selectorOnly ''1'', selectorOnly ''0''] \<and>
   DuplicateElementFilter_filter [selectorOnly ''constructor'']
     = Inl (TypeError ''groups[key].push is not a function'')"
  by (simp only: indexKeys_reordered indexKeys_first_seen prototypeKey_throws)

text \<open>
  Claim C6, amended. For every input list in which no selector expression is an array index
  or the name of a property of \<^verbatim>\<open>Object.prototype\<close>, \<^verbatim>\<open>DuplicateElementFilter.filter\<close> returns
  the first element for each distinct selector expression in first-seen order: a
  subsequence of the input with pairwise distinct selector expressions, the same set of
  selector expressions as the input, each element the first of the input with its
  expression. Two elements with equal expressions collapse to one.
\<close>

theorem DuplicateElementFilter_first_per_selector:
  assumes "\<forall>e\<in>set es. selectorOf e \<notin> set objectPrototypeKeys \<and> \<not> isArrayIndex (selectorOf e)"
  shows "\<exists>out. DuplicateElementFilter_filter es = Inr out \<and>
           out = firstPerSelector [] es \<and>
           subseq out es \<and>
           distinct (map selectorOf out) \<and>
           set (map selectorOf out) = set (map selectorOf es) \<and>
           (\<forall>e\<in>set out. find (\<lambda>x. selectorOf x = selectorOf e) es = Some e)"
  using DuplicateElementFilter_first [OF assms]
  by (simp add: firstPerSelector_subseq firstPerSelector_distinct firstPerSelector_selectors
      firstPerSelector_first)

text \<open>
  Every selector expression \<^verbatim>\<open>generateSelector\<close> produces contains an opening parenthesis,
  so the records \<^verbatim>\<open>extractElementInfo\<close> builds satisfy the hypothesis.
\<close>

lemma firstOf_cases:
  assumes "P d" and "\<And>x. Some x \<in> set xs \<Longrightarrow> P x"
  shows "P (firstOf xs d)"
  using assms
proof (induction xs)
  case Nil
  then show ?case by simp
next
  case (Cons a xs)
  then show ?case by (cases a) auto
qed

lemma generateSelector_paren:
  "CHR ''('' \<in> set (selector (generateSelector urlHostname tag r text' label ph attrs index))"
  unfolding generateSelector_def
proof (rule firstOf_cases)
  show "CHR ''('' \<in> set (selector (fallbackSelector tag index))"
    by (simp add: fallbackSelector_def)
next
  fix x
  assume "Some x \<in> set
     [roleBranch r text' label, fieldBranch tag label ph,
      buttonBranch tag text' (map_of attrs ''type'') index,
      anchorBranch urlHostname tag text' attrs index, imgBranch tag attrs index,
      textBranch text', testIdBranch attrs, idBranch attrs, nameBranch attrs]"
  then consider
      "roleBranch r text' label = Some x"
    | "fieldBranch tag label ph = Some x"
    | "buttonBranch tag text' (map_of attrs ''type'') index = Some x"
    | "anchorBranch urlHostname tag text' attrs index = Some x"
    | "imgBranch tag attrs index = Some x"
    | "textBranch text' = Some x"
    | "testIdBranch attrs = Some x"
    | "idBranch attrs = Some x"
    | "nameBranch attrs = Some x"
    by auto
  then show "CHR ''('' \<in> set (selector x)"
  proof cases
    case 1
    then show ?thesis by (auto simp: roleBranch_def Let_def split: if_splits)
  next
    case 2
    then show ?thesis by (auto simp: fieldBranch_def split: if_splits)
  next
    case 3
    then show ?thesis by (auto simp: buttonBranch_def split: if_splits)
  next
    case 4
    then show ?thesis by (auto simp: anchorBranch_def split: if_splits option.splits)
  next
    case 5
    then show ?thesis by (auto simp: imgBranch_def split: if_splits option.splits)
  next
    case 6
    then show ?thesis by (auto simp: textBranch_def split: if_splits)
  next
    case 7
    then show ?thesis by (auto simp: testIdBranch_def split: if_splits option.splits)
  next
    case 8
    then show ?thesis by (auto simp: idBranch_def split: if_splits option.splits)
  next
    case 9
    then show ?thesis by (auto simp: nameBranch_def split: if_splits option.splits)
  qed
qed

lemma paren_not_digit: "\<not> isDigit CHR ''(''"
  by (simp add: isDigit_def code_def)

lemma paren_key_plain:
  assumes "CHR ''('' \<in> set s"
  shows "s \<notin> set objectPrototypeKeys \<and> \<not> isArrayIndex s"
proof
  show "s \<notin> set objectPrototypeKeys"
    using assms by (auto simp: objectPrototypeKeys_def)
  show "\<not> isArrayIndex s"
    using assms paren_not_digit by (auto simp: isArrayIndex_def list_all_iff)
qed

lemma extracted_selector_plain:
  "selectorOf (extractElementInfo urlHostname el index) \<notin> set objectPrototypeKeys \<and>
   \<not> isArrayIndex (selectorOf (extractElementInfo urlHostname el index))"
  by (rule paren_key_plain) (simp add: extractElementInfo_def Let_def generateSelector_paren)

lemma twoSubmits_plain:
  "list_all (\<lambda>e. selectorOf e \<notin> set objectPrototypeKeys \<and> \<not> isArrayIndex (selectorOf e)) twoSubmits"
  by code_simp

lemma twoSubmits_first:
  "firstPerSelector [] twoSubmits = [twoSubmits ! 0, twoSubmits ! 1]"
  by code_simp

lemma twoSubmits_equal_selectors:
  "selectorOf (twoSubmits ! 0) = selectorOf (twoSubmits ! 2) \<and> twoSubmits ! 0 \<noteq> twoSubmits ! 2"
  by code_simp

text \<open>Two \<^verbatim>\<open>Submit\<close> buttons, distinct records with one selector expression, collapse to the
  first.\<close>

theorem DuplicateElementFilter_first_per_selector_witness:
  "list_all (\<lambda>e. selectorOf e \<notin> set objectPrototypeKeys \<and> \<not> isArrayIndex (selectorOf e)) twoSubmits \<and>
   selectorOf (twoSubmits ! 0) = selectorOf (twoSubmits ! 2) \<and>
   twoSubmits ! 0 \<noteq> twoSubmits ! 2 \<and>
   DuplicateElementFilter_filter twoSubmits = Inr [twoSubmits ! 0, twoSubmits ! 1]"
proof -
  have "\<forall>e\<in>set twoSubmits. selectorOf e \<notin> set objectPrototypeKeys \<and> \<not> isArrayIndex (selectorOf e)"
    using twoSubmits_plain by (simp add: list_all_iff)
  from DuplicateElementFilter_first_per_selector [OF this]
  have "DuplicateElementFilter_filter twoSubmits = Inr (firstPerSelector [] twoSubmits)"
    by blast
  then show ?thesis
    using twoSubmits_plain twoSubmits_equal_selectors by (simp only: twoSubmits_first) simp
qed

section \<open>The classifier and the element-type table\<close>




















section \<open>Generated names are identifiers\<close>






end
